theory Spec2Isabelle
  imports Main "HOL-Library.Sublist"
begin

section \<open>move-harness: session lifecycle and output interpretation\<close>

text \<open>
  A shallow embedding of the two pieces of \<^verbatim>\<open>move-harness\<close> that its specification covers:
  the output interpreter (\<^verbatim>\<open>cli/parser\<close>, and \<^verbatim>\<open>parseVmStatus\<close>, \<^verbatim>\<open>decodeAbortCode\<close>,
  \<^verbatim>\<open>parseRunResult\<close> of \<^verbatim>\<open>core/session\<close>) and the \<^verbatim>\<open>SimulationSession\<close> class.

  The repository holds \<^verbatim>\<open>core/session\<close> twice: the TypeScript file \<^verbatim>\<open>src/core/session.ts\<close>,
  which the tests import, and the compiled \<^verbatim>\<open>dist/core/session.js\<close> that the package ships.
  They are not the same revision. The compiled file has, and the TypeScript file lacks,
  \<^verbatim>\<open>cleanBuildDir\<close> (called from the failure branches of \<^verbatim>\<open>compile\<close> and \<^verbatim>\<open>publish\<close>),
  \<^verbatim>\<open>ERROR_CATEGORIES\<close>, \<^verbatim>\<open>decodeAbortCode\<close>, four of the six patterns of \<^verbatim>\<open>parseVmStatus\<close> and
  the \<^verbatim>\<open>stderr\<close> field of \<^verbatim>\<open>parseRunResult\<close>; the rest of the class is the same in both.

  Both revisions are embedded where they differ in what a method does to the disk, to the
  tracked set or to its result. A definition with the plain name of the source follows
  \<^verbatim>\<open>dist/core/session.js\<close>; the definitions \<open>compile_catch_ts\<close>, \<open>compile_ts\<close>, \<open>publish_ts\<close>,
  \<open>compileAndPublish_ts\<close> and \<open>parseVmStatus_ts\<close> follow \<^verbatim>\<open>src/core/session.ts\<close>. Where only one
  definition is given (\<open>destroy\<close>, \<open>generateAccount\<close>, \<open>view\<close>, \<open>viewResource\<close>, \<open>fund\<close>, the
  argument lists, the interpretation of the output of \<open>publish\<close>) the two files have the same
  code. \<open>run\<close> and \<open>runScript\<close> follow the compiled file; in the TypeScript file their result
  has no field \<^verbatim>\<open>stderr\<close> and is otherwise the same.

  Conventions of the embedding.
  \<^item> A JavaScript string is a \<^typ>\<open>string\<close>: a list of 8-bit code units. Code units above
    \<^verbatim>\<open>0xFF\<close> are outside the model.
  \<^item> \<^verbatim>\<open>undefined\<close> is \<^term>\<open>None\<close>; a thrown exception is \<^term>\<open>Inl\<close> of an \<open>error\<close>.
  \<^item> The disk is the set of paths that exist. The external process, the path functions of
    Node, \<^verbatim>\<open>JSON.parse\<close> and the key generator of the SDK are fields of a \<open>platform\<close>.
  \<^item> The logger (\<^verbatim>\<open>utils/logger\<close>) writes to \<^verbatim>\<open>stderr\<close> only, and what it writes is left out.
    What is kept is where a call of it can throw: \<^verbatim>\<open>detail\<close> and \<^verbatim>\<open>vmError\<close> put their value
    into a template literal when the logger is enabled, and the conversion to a string
    throws \<open>TypeError\<close> for a value without a primitive form. The compiled logger is not
    among the sources; it is taken to be the \<^verbatim>\<open>src/utils/logger.ts\<close> that is.
\<close>

subsection \<open>Strings\<close>

text \<open>\<^verbatim>\<open>String.prototype.trim\<close>: white space and line terminators of ECMAScript, among the
  8-bit code units.\<close>

definition isWhiteSpace :: "char \<Rightarrow> bool" where
  "isWhiteSpace c =
     (c \<in> set [CHR 0x09, CHR 0x0A, CHR 0x0B, CHR 0x0C, CHR 0x0D, CHR 0x20, CHR 0xA0])"

definition trim :: "string \<Rightarrow> string" where
  "trim s = rev (dropWhile isWhiteSpace (rev (dropWhile isWhiteSpace s)))"

text \<open>\<^verbatim>\<open>s.indexOf(c)\<close> for a one-character needle: the first index, or \<open>-1\<close>.\<close>

fun indexOf_from :: "string \<Rightarrow> char \<Rightarrow> int \<Rightarrow> int" where
  "indexOf_from [] c i = - 1"
| "indexOf_from (x # xs) c i = (if x = c then i else indexOf_from xs c (i + 1))"

definition indexOf :: "string \<Rightarrow> char \<Rightarrow> int" where
  "indexOf s c = indexOf_from s c 0"

definition startsWith :: "string \<Rightarrow> string \<Rightarrow> bool" where
  "startsWith s p = (take (length p) s = p)"

text \<open>\<^verbatim>\<open>s.slice(i)\<close> for \<open>0 \<le> i\<close>.\<close>

definition slice_from :: "string \<Rightarrow> int \<Rightarrow> string" where
  "slice_from s i = drop (nat i) s"

subsection \<open>JSON values\<close>

text \<open>A number keeps its lexeme: the value of the double it denotes is not needed.\<close>

datatype json =
    JNull
  | JBool bool
  | JNumber string
  | JString string
  | JArray "json list"
  | JObject "(string \<times> json) list"

text \<open>An object keeps its members in the order of the text; a repeated name takes the last
  value, as \<^verbatim>\<open>JSON.parse\<close> overwrites the property.\<close>

definition lookup_last :: "(string \<times> json) list \<Rightarrow> string \<Rightarrow> json option" where
  "lookup_last ms k = map_of (rev ms) k"

text \<open>\<^verbatim>\<open>v?.name\<close> (and \<^verbatim>\<open>v.name\<close> for \<open>v\<close> neither \<^verbatim>\<open>null\<close> nor \<^verbatim>\<open>undefined\<close>), for the
  property names the code reads: none of them is a property of a primitive, of an array or
  of \<^verbatim>\<open>Object.prototype\<close>.\<close>

fun get_prop :: "json \<Rightarrow> string \<Rightarrow> json option" where
  "get_prop (JObject ms) k = lookup_last ms k"
| "get_prop _ k = None"

definition opt_prop :: "json option \<Rightarrow> string \<Rightarrow> json option" where
  "opt_prop v k = (case v of None \<Rightarrow> None | Some j \<Rightarrow> get_prop j k)"

text \<open>\<^verbatim>\<open>typeof v === "object"\<close> holds of objects, arrays and \<^verbatim>\<open>null\<close>.\<close>

fun typeof_object :: "json \<Rightarrow> bool" where
  "typeof_object JNull = True"
| "typeof_object (JArray _) = True"
| "typeof_object (JObject _) = True"
| "typeof_object _ = False"

text \<open>Truthiness of a JSON value. A number is falsy when it is a zero: its lexeme has no
  digit other than \<open>0\<close> before the exponent. (A lexeme so small that its double is zero, as
  \<^verbatim>\<open>1e-400\<close>, counts as nonzero here.)\<close>

definition zero_lexeme :: "string \<Rightarrow> bool" where
  "zero_lexeme l =
     list_all (\<lambda>c. c \<in> set ''-0.'') (takeWhile (\<lambda>c. c \<noteq> CHR ''e'' \<and> c \<noteq> CHR ''E'') l)"

fun truthy :: "json \<Rightarrow> bool" where
  "truthy JNull = False"
| "truthy (JBool b) = b"
| "truthy (JNumber l) = (\<not> zero_lexeme l)"
| "truthy (JString s) = (s \<noteq> [])"
| "truthy (JArray _) = True"
| "truthy (JObject _) = True"

text \<open>\<^verbatim>\<open>name in v\<close> for an object or an array \<open>v\<close> and the names \<^verbatim>\<open>Result\<close> and \<^verbatim>\<open>Error\<close>.\<close>

fun has_key :: "string \<Rightarrow> json \<Rightarrow> bool" where
  "has_key k (JObject ms) = (k \<in> set (map fst ms))"
| "has_key k _ = False"

text \<open>Whether the conversion of a parsed value to a primitive (\<^verbatim>\<open>String(v)\<close>, a template
  literal, \<^verbatim>\<open>Number(v)\<close>) returns. An object is converted by its \<^verbatim>\<open>toString\<close> and \<^verbatim>\<open>valueOf\<close>:
  the inherited \<^verbatim>\<open>valueOf\<close> returns the object itself, which is no primitive, and a member
  named \<^verbatim>\<open>toString\<close> shadows the inherited method with a value that cannot be called, so
  that the conversion throws \<open>TypeError\<close>. An array is converted by \<^verbatim>\<open>join\<close>, which converts
  each element other than \<^verbatim>\<open>null\<close>.\<close>

fun stringifiable :: "json \<Rightarrow> bool" where
  "stringifiable (JArray xs) = list_all stringifiable xs"
| "stringifiable (JObject ms) = (''toString'' \<notin> set (map fst ms))"
| "stringifiable _ = True"

subsection \<open>A reference \<^verbatim>\<open>JSON.parse\<close>\<close>

text \<open>Modelled from the spec: \<^verbatim>\<open>JSON.parse\<close> is a builtin of the JavaScript engine, not code of
  the repository. The grammar is that of ECMA-404, read one code unit at a time by a
  machine with a stack of the open arrays and objects. An escape \<^verbatim>\<open>\uXXXX\<close> above \<^verbatim>\<open>0xFF\<close> has
  no 8-bit code unit and is rejected here. The session and the parser take \<^verbatim>\<open>JSON.parse\<close> from
  the platform; this one is the platform of the concrete examples.\<close>

datatype frame =
    FArray "json list"
  | FObject "(string \<times> json) list" "string option"

datatype mode =
    MValue
  | MValueOrClose
  | MKeyOrClose
  | MKey
  | MColon
  | MAfterValue
  | MDone json

datatype numstate = NMinus | NZero | NInt | NDot | NFrac | NExp | NExpSign | NExpDigits

datatype lex =
    LNone
  | LString string
  | LEscape string
  | LUnicode string string
  | LNumber numstate string
  | LLiteral string json

type_synonym pstate = "lex \<times> mode \<times> frame list"

definition isDigit :: "char \<Rightarrow> bool" where
  "isDigit c = (c \<in> set ''0123456789'')"

definition isHexDigit :: "char \<Rightarrow> bool" where
  "isHexDigit c = (c \<in> set ''0123456789abcdefABCDEF'')"

definition digit_value :: "char \<Rightarrow> nat" where
  "digit_value c =
     (if isDigit c then of_char c - 48
      else if c \<in> set ''abcdef'' then of_char c - 87
      else of_char c - 55)"

definition isJsonSpace :: "char \<Rightarrow> bool" where
  "isJsonSpace c = (c \<in> set [CHR 0x20, CHR 0x09, CHR 0x0A, CHR 0x0D])"

definition value_allowed :: "mode \<Rightarrow> bool" where
  "value_allowed m = (m = MValue \<or> m = MValueOrClose)"

definition key_allowed :: "mode \<Rightarrow> bool" where
  "key_allowed m = (m = MKeyOrClose \<or> m = MKey)"

text \<open>A value is complete: it is the document, the next element of the array on top of the
  stack, or the value of the pending member of the object on top.\<close>

fun complete :: "json \<Rightarrow> frame list \<Rightarrow> pstate option" where
  "complete v [] = Some (LNone, MDone v, [])"
| "complete v (FArray es # st) = Some (LNone, MAfterValue, FArray (v # es) # st)"
| "complete v (FObject ms (Some k) # st) = Some (LNone, MAfterValue, FObject ((k, v) # ms) None # st)"
| "complete v (FObject ms None # st) = None"

fun set_key :: "string \<Rightarrow> frame list \<Rightarrow> pstate option" where
  "set_key k (FObject ms None # st) = Some (LNone, MColon, FObject ms (Some k) # st)"
| "set_key k _ = None"

fun close_object :: "frame list \<Rightarrow> pstate option" where
  "close_object (FObject ms None # st) = complete (JObject (rev ms)) st"
| "close_object _ = None"

fun close_array :: "frame list \<Rightarrow> pstate option" where
  "close_array (FArray es # st) = complete (JArray (rev es)) st"
| "close_array _ = None"

fun after_comma :: "frame list \<Rightarrow> pstate option" where
  "after_comma [] = None"
| "after_comma (FArray es # st) = Some (LNone, MValue, FArray es # st)"
| "after_comma (FObject ms k # st) = Some (LNone, MKey, FObject ms k # st)"

text \<open>A code unit between tokens.\<close>

definition step_token :: "char \<Rightarrow> mode \<Rightarrow> frame list \<Rightarrow> pstate option" where
  "step_token c m st =
     (if isJsonSpace c then Some (LNone, m, st)
      else if c = CHR 0x22 then
        (if value_allowed m \<or> key_allowed m then Some (LString [], m, st) else None)
      else if c = CHR ''{'' then
        (if value_allowed m then Some (LNone, MKeyOrClose, FObject [] None # st) else None)
      else if c = CHR ''['' then
        (if value_allowed m then Some (LNone, MValueOrClose, FArray [] # st) else None)
      else if c = CHR ''}'' then
        (if m = MKeyOrClose \<or> m = MAfterValue then close_object st else None)
      else if c = CHR '']'' then
        (if m = MValueOrClose \<or> m = MAfterValue then close_array st else None)
      else if c = CHR '','' then
        (if m = MAfterValue then after_comma st else None)
      else if c = CHR '':'' then
        (if m = MColon then Some (LNone, MValue, st) else None)
      else if \<not> value_allowed m then None
      else if c = CHR ''-'' then Some (LNumber NMinus [c], m, st)
      else if c = CHR ''0'' then Some (LNumber NZero [c], m, st)
      else if isDigit c then Some (LNumber NInt [c], m, st)
      else if c = CHR ''t'' then Some (LLiteral ''rue'' (JBool True), m, st)
      else if c = CHR ''f'' then Some (LLiteral ''alse'' (JBool False), m, st)
      else if c = CHR ''n'' then Some (LLiteral ''ull'' JNull, m, st)
      else None)"

text \<open>A number ends at the first code unit that cannot continue it; that code unit is then
  read as a token.\<close>

definition number_ends :: "numstate \<Rightarrow> bool" where
  "number_ends n = (n = NZero \<or> n = NInt \<or> n = NFrac \<or> n = NExpDigits)"

definition isExp :: "char \<Rightarrow> bool" where
  "isExp c = (c = CHR ''e'' \<or> c = CHR ''E'')"

fun number_next :: "numstate \<Rightarrow> char \<Rightarrow> numstate option" where
  "number_next NMinus c =
     (if c = CHR ''0'' then Some NZero else if isDigit c then Some NInt else None)"
| "number_next NZero c =
     (if c = CHR ''.'' then Some NDot else if isExp c then Some NExp else None)"
| "number_next NInt c =
     (if isDigit c then Some NInt else if c = CHR ''.'' then Some NDot
      else if isExp c then Some NExp else None)"
| "number_next NDot c = (if isDigit c then Some NFrac else None)"
| "number_next NFrac c =
     (if isDigit c then Some NFrac else if isExp c then Some NExp else None)"
| "number_next NExp c =
     (if c = CHR ''+'' \<or> c = CHR ''-'' then Some NExpSign
      else if isDigit c then Some NExpDigits else None)"
| "number_next NExpSign c = (if isDigit c then Some NExpDigits else None)"
| "number_next NExpDigits c = (if isDigit c then Some NExpDigits else None)"

definition end_number :: "numstate \<Rightarrow> string \<Rightarrow> frame list \<Rightarrow> pstate option" where
  "end_number n acc st = (if number_ends n then complete (JNumber (rev acc)) st else None)"

definition escape_char :: "char \<Rightarrow> char option" where
  "escape_char c =
     (if c = CHR 0x22 \<or> c = CHR 0x5C \<or> c = CHR ''/'' then Some c
      else if c = CHR ''b'' then Some (CHR 0x08)
      else if c = CHR ''f'' then Some (CHR 0x0C)
      else if c = CHR ''n'' then Some (CHR 0x0A)
      else if c = CHR ''r'' then Some (CHR 0x0D)
      else if c = CHR ''t'' then Some (CHR 0x09)
      else None)"

definition hex4_value :: "string \<Rightarrow> nat" where
  "hex4_value ds = foldl (\<lambda>n d. 16 * n + digit_value d) 0 ds"

fun step :: "char \<Rightarrow> pstate \<Rightarrow> pstate option" where
  "step c (LNone, m, st) = step_token c m st"
| "step c (LString acc, m, st) =
     (if c = CHR 0x22 then
        (if key_allowed m then set_key (rev acc) st else complete (JString (rev acc)) st)
      else if c = CHR 0x5C then Some (LEscape acc, m, st)
      else if (of_char c :: nat) < 32 then None
      else Some (LString (c # acc), m, st))"
| "step c (LEscape acc, m, st) =
     (if c = CHR ''u'' then Some (LUnicode acc [], m, st)
      else (case escape_char c of
              None \<Rightarrow> None
            | Some e \<Rightarrow> Some (LString (e # acc), m, st)))"
| "step c (LUnicode acc ds, m, st) =
     (if \<not> isHexDigit c then None
      else if length ds < 3 then Some (LUnicode acc (ds @ [c]), m, st)
      else if hex4_value (ds @ [c]) < 256
        then Some (LString (char_of (hex4_value (ds @ [c])) # acc), m, st)
      else None)"
| "step c (LNumber n acc, m, st) =
     (case number_next n c of
        Some n' \<Rightarrow> Some (LNumber n' (c # acc), m, st)
      | None \<Rightarrow>
         (case end_number n acc st of
            None \<Rightarrow> None
          | Some (l, m', st') \<Rightarrow> step_token c m' st'))"
| "step c (LLiteral [] v, m, st) = None"
| "step c (LLiteral (x # xs) v, m, st) =
     (if c \<noteq> x then None
      else if xs = [] then complete v st
      else Some (LLiteral xs v, m, st))"

fun steps :: "string \<Rightarrow> pstate \<Rightarrow> pstate option" where
  "steps [] p = Some p"
| "steps (c # cs) p = (case step c p of None \<Rightarrow> None | Some p' \<Rightarrow> steps cs p')"

fun finish :: "pstate \<Rightarrow> json option" where
  "finish (LNone, MDone v, st) = Some v"
| "finish (LNumber n acc, m, st) =
     (case end_number n acc st of
        Some (LNone, MDone v, st') \<Rightarrow> Some v
      | _ \<Rightarrow> None)"
| "finish _ = None"

definition ecma_JSON_parse :: "string \<Rightarrow> json option" where
  "ecma_JSON_parse text =
     (case steps text (LNone, MValue, []) of None \<Rightarrow> None | Some p \<Rightarrow> finish p)"

subsection \<open>Errors (\<^verbatim>\<open>types/errors\<close>)\<close>

text \<open>The arguments are those of the constructors: \<open>CliExecutionError command exitCode stderr
  stdout\<close>, \<open>CliParseError message rawOutput\<close>, \<open>CompilationError message diagnostics\<close>.
  \<open>TypeError\<close> is the builtin of the engine.\<close>

datatype error =
    SessionDestroyedError
  | CliExecutionError string int string string
  | CliParseError string string
  | CompilationError string string
  | TypeError string

text \<open>\<^verbatim>\<open>err.stderr\<close>: a property of \<open>CliExecutionError\<close> only.\<close>

fun err_stderr :: "error \<Rightarrow> string option" where
  "err_stderr (CliExecutionError command exitCode stderr stdout) = Some stderr"
| "err_stderr _ = None"

text \<open>The error of a conversion that does not return (see \<open>stringifiable\<close>).\<close>

definition no_primitive :: error where
  "no_primitive = TypeError ''Cannot convert object to primitive value''"

subsection \<open>The world outside the session\<close>

record ExecOptions =
  timeout :: nat
  cwd :: "string option"
  allowFailure :: bool

record ExecResult =
  stdout :: string
  stderr :: string
  exitCode :: int

text \<open>What \<^verbatim>\<open>execFile\<close> hands to its callback: the error, if any, with its \<^verbatim>\<open>code\<close> when that is a
  number and its \<^verbatim>\<open>status\<close>, and the two streams.\<close>

record ChildError =
  error_code :: "int option"
  error_status :: "int option"

record ChildOutput =
  child_error :: "ChildError option"
  child_stdout :: string
  child_stderr :: string

record GeneratedAccount =
  address :: string
  privateKey :: string
  publicKey :: string

text \<open>The disk is the set of existing paths; \<open>invocations\<close> logs every call of the external
  process (binary, arguments, options) in order; \<open>entropy\<close> feeds the key generator.\<close>

record world =
  disk :: "string set"
  invocations :: "(string \<times> string list \<times> ExecOptions) list"
  entropy :: nat

text \<open>The collaborators that are not code of the repository. \<open>execFile\<close> sees the world in which
  it is called and gives the output of the child and the disk the child leaves.\<close>

record platform =
  JSON_parse :: "string \<Rightarrow> json option"
  path_resolve :: "string \<Rightarrow> string"
  path_join :: "string \<Rightarrow> string \<Rightarrow> string"
  execFile :: "string \<Rightarrow> string list \<Rightarrow> ExecOptions \<Rightarrow> world \<Rightarrow> ChildOutput \<times> string set"
  Account_generate :: "nat \<Rightarrow> GeneratedAccount \<times> nat"

text \<open>\<^verbatim>\<open>fs.existsSync\<close>, and \<^verbatim>\<open>fs.rmSync(p, { recursive: true, force: true })\<close>: the path and all
  below it are gone afterwards; a missing path is no error.\<close>

definition existsSync :: "string \<Rightarrow> world \<Rightarrow> bool" where
  "existsSync p w = (p \<in> disk w)"

definition within :: "string \<Rightarrow> string \<Rightarrow> bool" where
  "within p q = (q = p \<or> prefix (p @ ''/'') q)"

definition rmSync :: "string \<Rightarrow> world \<Rightarrow> world" where
  "rmSync p w = w\<lparr>disk := {q \<in> disk w. \<not> within p q}\<rparr>"

subsection \<open>The process adapter (\<^verbatim>\<open>cli/executor\<close>)\<close>

definition join_with :: "string \<Rightarrow> string list \<Rightarrow> string" where
  "join_with sep xs = (case xs of [] \<Rightarrow> [] | y # ys \<Rightarrow> foldl (\<lambda>a b. a @ sep @ b) y ys)"

definition executeAptosCli ::
  "platform \<Rightarrow> string \<Rightarrow> string list \<Rightarrow> ExecOptions \<Rightarrow> world \<Rightarrow> (error + ExecResult) \<times> world" where
  "executeAptosCli P binaryPath args options w =
     (let (out, d) = execFile P binaryPath args options w;
          w' = w\<lparr>disk := d, invocations := invocations w @ [(binaryPath, args, options)]\<rparr>;
          rawStdout = child_stdout out;
          rawStderr = child_stderr out;
          exitCode = (case child_error out of
                        None \<Rightarrow> 0
                      | Some e \<Rightarrow> (case error_code e of
                                     Some n \<Rightarrow> n
                                   | None \<Rightarrow> (case error_status e of Some n \<Rightarrow> n | None \<Rightarrow> 1)));
          result = \<lparr>stdout = rawStdout, stderr = rawStderr, exitCode = exitCode\<rparr>
      in if child_error out \<noteq> None \<and> \<not> allowFailure options
         then (Inl (CliExecutionError (binaryPath @ '' '' @ join_with '' '' args)
                      exitCode rawStderr rawStdout), w')
         else (Inr result, w'))"

subsection \<open>JSON envelope extraction (\<^verbatim>\<open>cli/parser\<close>)\<close>

definition parseJsonOutput :: "platform \<Rightarrow> string \<Rightarrow> error + json" where
  "parseJsonOutput P out =
     (let trimmed = trim out
      in case JSON_parse P trimmed of
           Some v \<Rightarrow> Inr v
         | None \<Rightarrow>
            (let braceIdx = indexOf trimmed (CHR ''{'');
                 bracketIdx = indexOf trimmed (CHR ''['');
                 startIdx = (if braceIdx \<ge> 0 \<and> bracketIdx \<ge> 0 then min braceIdx bracketIdx
                             else if braceIdx \<ge> 0 then braceIdx
                             else if bracketIdx \<ge> 0 then bracketIdx
                             else - 1)
             in case (if startIdx \<ge> 0 then JSON_parse P (slice_from trimmed startIdx) else None) of
                  Some v \<Rightarrow> Inr v
                | None \<Rightarrow> Inl (CliParseError ''Failed to parse JSON from CLI output'' trimmed)))"

text \<open>The result of \<open>extractResult\<close> is a JavaScript value: \<^term>\<open>None\<close> is \<^verbatim>\<open>undefined\<close>.\<close>

definition extractResult :: "platform \<Rightarrow> string \<Rightarrow> error + json option" where
  "extractResult P out =
     (case parseJsonOutput P out of
        Inl e \<Rightarrow> Inl e
      | Inr parsed \<Rightarrow>
         (if truthy parsed \<and> typeof_object parsed \<and> has_key ''Result'' parsed
          then Inr (get_prop parsed ''Result'')
          else Inr (Some parsed)))"

definition isErrorOutput :: "platform \<Rightarrow> string \<Rightarrow> bool" where
  "isErrorOutput P out =
     (case parseJsonOutput P out of
        Inl e \<Rightarrow> False
      | Inr parsed \<Rightarrow> parsed \<noteq> JNull \<and> typeof_object parsed \<and> has_key ''Error'' parsed)"

subsection \<open>Regular expressions\<close>

text \<open>Modelled from the spec: \<^verbatim>\<open>String.prototype.match\<close> with a pattern without the flag \<^verbatim>\<open>g\<close> is
  the backtracking matcher of ECMAScript. \<open>rx_paths r s i c\<close> lists, in the order in which
  backtracking tries them, the ways \<open>r\<close> can match \<open>s\<close> from index \<open>i\<close> with captures \<open>c\<close>: each
  is the index after the match and the captures then. The head of the list is the match the
  engine reports. Every pattern of the file has the flag \<^verbatim>\<open>i\<close>, so characters are compared
  after \<open>canonicalize\<close>; no pattern has a group under a star, so the reset of captures at
  each iteration is not modelled.\<close>

datatype atom = AChar char | ADigit | AWord | ASpace | ARange char char

datatype rx =
    Eps
  | Lit char
  | Class "atom list"
  | Dot
  | Seq rx rx
  | Star rx
  | LazyStar rx
  | Opt rx
  | Group nat rx
  | Bol
  | Eol

text \<open>The upper case of an ASCII letter. A code unit above \<^verbatim>\<open>0x7F\<close> never canonicalizes to an
  ASCII one, and the patterns hold ASCII only, so leaving it as it is changes no comparison.\<close>

definition canonicalize :: "char \<Rightarrow> char" where
  "canonicalize c =
     (if (97::nat) \<le> of_char c \<and> (of_char c :: nat) \<le> 122
      then char_of (of_char c - (32::nat)) else c)"

definition char_range :: "char \<Rightarrow> char \<Rightarrow> char list" where
  "char_range lo hi = map char_of [of_char lo ..< Suc (of_char hi)]"

definition isWordChar :: "char \<Rightarrow> bool" where
  "isWordChar c =
     (c \<in> set ''abcdefghijklmnopqrstuvwxyzABCDEFGHIJKLMNOPQRSTUVWXYZ0123456789_'')"

definition isLineTerminator :: "char \<Rightarrow> bool" where
  "isLineTerminator c = (c = CHR 0x0A \<or> c = CHR 0x0D)"

fun atom_matches :: "atom \<Rightarrow> char \<Rightarrow> bool" where
  "atom_matches (AChar a) c = (canonicalize a = canonicalize c)"
| "atom_matches ADigit c = isDigit c"
| "atom_matches AWord c = isWordChar c"
| "atom_matches ASpace c = isWhiteSpace c"
| "atom_matches (ARange lo hi) c =
     list_ex (\<lambda>a. canonicalize a = canonicalize c) (char_range lo hi)"

type_synonym captures = "(nat \<times> nat \<times> nat) list"

function rx_paths :: "rx \<Rightarrow> string \<Rightarrow> nat \<Rightarrow> captures \<Rightarrow> (nat \<times> captures) list" where
  "rx_paths Eps s i c = [(i, c)]"
| "rx_paths (Lit a) s i c =
     (if i < length s \<and> canonicalize (s ! i) = canonicalize a then [(Suc i, c)] else [])"
| "rx_paths (Class as) s i c =
     (if i < length s \<and> list_ex (\<lambda>a. atom_matches a (s ! i)) as then [(Suc i, c)] else [])"
| "rx_paths Dot s i c =
     (if i < length s \<and> \<not> isLineTerminator (s ! i) then [(Suc i, c)] else [])"
| "rx_paths (Seq r1 r2) s i c =
     concat (map (\<lambda>p. rx_paths r2 s (fst p) (snd p)) (rx_paths r1 s i c))"
| "rx_paths (Star r) s i c =
     concat (map (\<lambda>p. if i < fst p \<and> fst p \<le> length s
                       then rx_paths (Star r) s (fst p) (snd p) else [])
                 (rx_paths r s i c)) @ [(i, c)]"
| "rx_paths (LazyStar r) s i c =
     (i, c) #
     concat (map (\<lambda>p. if i < fst p \<and> fst p \<le> length s
                       then rx_paths (LazyStar r) s (fst p) (snd p) else [])
                 (rx_paths r s i c))"
| "rx_paths (Opt r) s i c = filter (\<lambda>p. i < fst p) (rx_paths r s i c) @ [(i, c)]"
| "rx_paths (Group n r) s i c = map (\<lambda>p. (fst p, (n, i, fst p) # snd p)) (rx_paths r s i c)"
| "rx_paths Bol s i c = (if i = 0 then [(i, c)] else [])"
| "rx_paths Eol s i c = (if i = length s then [(i, c)] else [])"
  by pat_completeness auto
termination
  by (relation "measures [\<lambda>(r, s, i, c). size r, \<lambda>(r, s, i, c). length s - i]") auto

definition lits :: "string \<Rightarrow> rx" where
  "lits s = foldr (\<lambda>a r. Seq (Lit a) r) s Eps"

definition seqs :: "rx list \<Rightarrow> rx" where
  "seqs rs = foldr Seq rs Eps"

definition Plus :: "rx \<Rightarrow> rx" where
  "Plus r = Seq r (Star r)"

definition LazyPlus :: "rx \<Rightarrow> rx" where
  "LazyPlus r = Seq r (LazyStar r)"

text \<open>The match is sought from index 0, then 1, and so on up to the length of the string. A
  match is its start, its end and its captures.\<close>

type_synonym rx_result = "nat \<times> nat \<times> captures"

fun first_match :: "rx \<Rightarrow> string \<Rightarrow> string \<Rightarrow> nat \<Rightarrow> rx_result option" where
  "first_match r s [] i = (case rx_paths r s i [] of [] \<Rightarrow> None | p # ps \<Rightarrow> Some (i, p))"
| "first_match r s (x # xs) i =
     (case rx_paths r s i [] of [] \<Rightarrow> first_match r s xs (Suc i) | p # ps \<Rightarrow> Some (i, p))"

definition rx_match :: "rx \<Rightarrow> string \<Rightarrow> rx_result option" where
  "rx_match r s = first_match r s s 0"

text \<open>\<open>capture s mt n\<close> is \<^verbatim>\<open>match[n]\<close>: the text of group \<open>n\<close>, or \<^verbatim>\<open>undefined\<close>.\<close>

definition capture :: "string \<Rightarrow> rx_result \<Rightarrow> nat \<Rightarrow> string option" where
  "capture s mt n =
     (case map_of (snd (snd mt)) n of
        None \<Rightarrow> None
      | Some (a, b) \<Rightarrow> Some (take (b - a) (drop a s)))"

subsection \<open>Numbers\<close>

text \<open>Modelled from the spec: \<^verbatim>\<open>parseInt\<close> and the conversions of Number are builtins. A Number
  is a double; the ones met here are \<^verbatim>\<open>NaN\<close>, the infinities and integers. \<open>to_double n\<close> is
  the double nearest to the integer \<open>n\<close>, ties to the even significand: exact up to 53
  bits.\<close>

datatype number = NaN | Finite int | PosInfinity | NegInfinity

fun bit_length :: "nat \<Rightarrow> nat" where
  "bit_length n = (if n = 0 then 0 else Suc (bit_length (n div 2)))"

definition to_double :: "nat \<Rightarrow> number" where
  "to_double n =
     (if bit_length n \<le> 53 then Finite (int n)
      else (let e = bit_length n - 53;
                q = n div 2 ^ e;
                r = n mod 2 ^ e;
                h = 2 ^ (e - 1);
                q' = (if r < h \<or> (r = h \<and> even q) then q else q + 1)
            in if q' * 2 ^ e \<ge> 2 ^ 1024 then PosInfinity else Finite (int (q' * 2 ^ e))))"

fun negate :: "number \<Rightarrow> number" where
  "negate NaN = NaN"
| "negate (Finite n) = Finite (- n)"
| "negate PosInfinity = NegInfinity"
| "negate NegInfinity = PosInfinity"

definition isRadixDigit :: "nat \<Rightarrow> char \<Rightarrow> bool" where
  "isRadixDigit radix c = (isHexDigit c \<and> digit_value c < radix)"

definition digits_value :: "nat \<Rightarrow> string \<Rightarrow> nat" where
  "digits_value radix ds = foldl (\<lambda>n d. radix * n + digit_value d) 0 ds"

text \<open>\<^verbatim>\<open>parseInt(string, radix)\<close> for the radix 10 or 16: leading white space and one sign are
  skipped, with radix 16 a prefix \<^verbatim>\<open>0x\<close> or \<^verbatim>\<open>0X\<close> too; the longest run of digits of the radix
  is the value, and \<^verbatim>\<open>NaN\<close> if the run is empty.\<close>

definition parseInt :: "string \<Rightarrow> nat \<Rightarrow> number" where
  "parseInt str radix =
     (let S = dropWhile isWhiteSpace str;
          S1 = (if startsWith S ''-'' \<or> startsWith S ''+'' then drop 1 S else S);
          S2 = (if radix = 16 \<and> (startsWith S1 ''0x'' \<or> startsWith S1 ''0X'') then drop 2 S1 else S1);
          Z = takeWhile (isRadixDigit radix) S2
      in if Z = [] then NaN
         else if startsWith S ''-'' then negate (to_double (digits_value radix Z))
         else to_double (digits_value radix Z))"

fun isNaN :: "number \<Rightarrow> bool" where
  "isNaN NaN = True"
| "isNaN _ = False"

text \<open>\<^verbatim>\<open>num < 0\<close>.\<close>

fun negative :: "number \<Rightarrow> bool" where
  "negative (Finite n) = (n < 0)"
| "negative NegInfinity = True"
| "negative _ = False"

text \<open>\<^verbatim>\<open>ToInt32\<close>, which the operators \<^verbatim>\<open>>>\<close> and \<^verbatim>\<open>&\<close> apply to their operands.\<close>

fun ToInt32 :: "number \<Rightarrow> int" where
  "ToInt32 (Finite n) = (if n mod 2 ^ 32 \<ge> 2 ^ 31 then n mod 2 ^ 32 - 2 ^ 32 else n mod 2 ^ 32)"
| "ToInt32 _ = 0"

definition digit_char :: "nat \<Rightarrow> char" where
  "digit_char d = ''0123456789abcdef'' ! d"

fun to_radix :: "nat \<Rightarrow> nat \<Rightarrow> string" where
  "to_radix radix n =
     (if n < radix \<or> radix < 2 then [digit_char n]
      else to_radix radix (n div radix) @ [digit_char (n mod radix)])"

text \<open>\<^verbatim>\<open>num.toString(16)\<close> and \<^verbatim>\<open>String(num)\<close> for the integers that are exact as doubles.\<close>

fun toString16 :: "number \<Rightarrow> string" where
  "toString16 NaN = ''NaN''"
| "toString16 (Finite n) = (if n < 0 then ''-'' @ to_radix 16 (nat (- n)) else to_radix 16 (nat n))"
| "toString16 PosInfinity = ''Infinity''"
| "toString16 NegInfinity = ''-Infinity''"

definition String_of_nat :: "nat \<Rightarrow> string" where
  "String_of_nat n = to_radix 10 n"

text \<open>\<^verbatim>\<open>Number(v)\<close> of a JSON value that has a primitive form is kept as a term: no claim
  reads the double.\<close>

datatype converted = Number json

subsection \<open>Abort codes and VM status (\<^verbatim>\<open>core/session\<close>)\<close>

definition ERROR_CATEGORIES :: "int \<Rightarrow> string option" where
  "ERROR_CATEGORIES = map_of
     [(0x1, ''INVALID_ARGUMENT''),
      (0x2, ''OUT_OF_RANGE''),
      (0x3, ''INVALID_STATE''),
      (0x4, ''UNAUTHENTICATED''),
      (0x5, ''PERMISSION_DENIED''),
      (0x6, ''NOT_FOUND''),
      (0x7, ''ABORTED''),
      (0x8, ''ALREADY_EXISTS''),
      (0x9, ''RESOURCE_EXHAUSTED''),
      (0xA, ''CANCELLED''),
      (0xB, ''INTERNAL''),
      (0xC, ''NOT_IMPLEMENTED''),
      (0xD, ''UNAVAILABLE'')]"

record DecodedAbort =
  category :: string
  reason :: int
  hex :: string

text \<open>The argument is a string or \<^verbatim>\<open>undefined\<close>; \<^verbatim>\<open>isNaN(undefined)\<close> holds.\<close>

definition decodeAbortCode :: "string option \<Rightarrow> DecodedAbort option" where
  "decodeAbortCode code =
     (case code of
        None \<Rightarrow> None
      | Some str \<Rightarrow>
         (let num = parseInt str (if startsWith str ''0x'' then 16 else 10)
          in if isNaN num \<or> negative num then None
             else (let cat = and (drop_bit 16 (ToInt32 num)) 0xFF;
                       reason = and (ToInt32 num) 0xFFFF
                   in case ERROR_CATEGORIES cat of
                        None \<Rightarrow> None
                      | Some name \<Rightarrow>
                         (if name = [] then None
                          else Some \<lparr>category = name, reason = reason,
                                     hex = ''0x'' @ toString16 num\<rparr>))))"

text \<open>The patterns of \<open>parseVmStatus\<close>, in the order of the source. \<open>sp1\<close> is \<^verbatim>\<open>\s+\<close>.\<close>

definition sp1 :: rx where
  "sp1 = Plus (Class [ASpace])"

definition digits1 :: rx where
  "digits1 = Plus (Class [ADigit])"

definition word1 :: rx where
  "word1 = Plus (Class [AWord])"

text \<open>\<^verbatim>\<open>/^status\s+ABORTED\s+with\s+code\s+(\d+)(?:\s+and\s+message\s+(.+?))?\s+in\s+(.+)$/i\<close>\<close>

definition keptAbort_rx :: rx where
  "keptAbort_rx =
     seqs [Bol, lits ''status'', sp1, lits ''ABORTED'', sp1, lits ''with'', sp1, lits ''code'', sp1,
           Group 1 digits1,
           Opt (seqs [sp1, lits ''and'', sp1, lits ''message'', sp1, Group 2 (LazyPlus Dot)]),
           sp1, lits ''in'', sp1, Group 3 (Plus Dot), Eol]"

text \<open>\<^verbatim>\<open>/EXECUTION_FAILURE\s+at\s+bytecode\s+offset\s+(\d+)\s+in\s+function\s+index\s+(\d+)\s+in\s+(.+?)(?:\s+with\s+error\s+message\s+(.+))?$/i\<close>\<close>

definition keptExec_rx :: rx where
  "keptExec_rx =
     seqs [lits ''EXECUTION_FAILURE'', sp1, lits ''at'', sp1, lits ''bytecode'', sp1,
           lits ''offset'', sp1, Group 1 digits1, sp1, lits ''in'', sp1, lits ''function'', sp1,
           lits ''index'', sp1, Group 2 digits1, sp1, lits ''in'', sp1, Group 3 (LazyPlus Dot),
           Opt (seqs [sp1, lits ''with'', sp1, lits ''error'', sp1, lits ''message'', sp1,
                      Group 4 (Plus Dot)]),
           Eol]"

text \<open>\<^verbatim>\<open>/Move abort(?:\s+in\s+(0x[a-fA-F0-9]+::\w+(?:::\w+)?))?[:\s]+(.+)/i\<close>\<close>

definition abort_rx :: rx where
  "abort_rx =
     seqs [lits ''Move abort'',
           Opt (seqs [sp1, lits ''in'', sp1,
                      Group 1 (seqs [lits ''0x'',
                                     Plus (Class [ARange (CHR ''a'') (CHR ''f''),
                                                  ARange (CHR ''A'') (CHR ''F''),
                                                  ARange (CHR ''0'') (CHR ''9'')]),
                                     lits ''::'', word1,
                                     Opt (seqs [lits ''::'', word1])])]),
           Plus (Class [AChar (CHR '':''), ASpace]),
           Group 2 (Plus Dot)]"

text \<open>\<^verbatim>\<open>/status\s+ABORTED\s+of\s+type\s+\w+\s+with\s+sub\s+status\s+(\d+)(?:\s+with\s+message\s+(.+))?$/i\<close>\<close>

definition sessionAbort_rx :: rx where
  "sessionAbort_rx =
     seqs [lits ''status'', sp1, lits ''ABORTED'', sp1, lits ''of'', sp1, lits ''type'', sp1, word1,
           sp1, lits ''with'', sp1, lits ''sub'', sp1, lits ''status'', sp1, Group 1 digits1,
           Opt (seqs [sp1, lits ''with'', sp1, lits ''message'', sp1, Group 2 (Plus Dot)]),
           Eol]"

text \<open>\<^verbatim>\<open>/status\s+(\w+)\s+of\s+type\s+\w+(?:\s+with\s+message\s+(.+))?$/i\<close>\<close>

definition sessionError_rx :: rx where
  "sessionError_rx =
     seqs [lits ''status'', sp1, Group 1 word1, sp1, lits ''of'', sp1, lits ''type'', sp1, word1,
           Opt (seqs [sp1, lits ''with'', sp1, lits ''message'', sp1, Group 2 (Plus Dot)]),
           Eol]"

text \<open>\<^verbatim>\<open>/failed.*?:\s*(.+)/i\<close>\<close>

definition exec_rx :: rx where
  "exec_rx =
     seqs [lits ''failed'', LazyStar Dot, Lit (CHR '':''), Star (Class [ASpace]), Group 1 (Plus Dot)]"

text \<open>The result of \<open>parseVmStatus\<close> in \<^verbatim>\<open>src/core/session.ts\<close>, and in the compiled file.\<close>

record VmStatus_ts =
  status :: string
  abortCode :: "string option"
  location :: "string option"

record VmStatus =
  status :: string
  abortCode :: "string option"
  message :: "string option"
  location :: "string option"
  category :: "string option"
  reason :: "int option"

text \<open>\<^verbatim>\<open>x || undefined\<close> for a string or \<^verbatim>\<open>undefined\<close>.\<close>

definition or_undefined :: "string option \<Rightarrow> string option" where
  "or_undefined x = (case x of None \<Rightarrow> None | Some s \<Rightarrow> if s = [] then None else Some s)"

definition only_status :: "string \<Rightarrow> VmStatus" where
  "only_status st =
     \<lparr>status = st, abortCode = None, message = None, location = None,
      category = None, reason = None\<rparr>"

text \<open>\<open>parseVmStatus\<close> of \<^verbatim>\<open>dist/core/session.js\<close> on a string that is not empty.\<close>

definition parseVmStatus_string :: "string \<Rightarrow> VmStatus" where
  "parseVmStatus_string vmStatus =
     (case rx_match keptAbort_rx vmStatus of
        Some keptAbortMatch \<Rightarrow>
          (let decoded = decodeAbortCode (capture vmStatus keptAbortMatch 1)
           in \<lparr>status = ''ABORTED'',
               abortCode = capture vmStatus keptAbortMatch 1,
               message = or_undefined (capture vmStatus keptAbortMatch 2),
               location = or_undefined (map_option trim (capture vmStatus keptAbortMatch 3)),
               category = map_option DecodedAbort.category decoded,
               reason = map_option DecodedAbort.reason decoded\<rparr>)
      | None \<Rightarrow>
     (case rx_match keptExec_rx vmStatus of
        Some keptExecMatch \<Rightarrow>
          \<lparr>status = ''EXECUTION_FAILURE'',
           abortCode = None,
           message = or_undefined (map_option trim (capture vmStatus keptExecMatch 4)),
           location = or_undefined (map_option trim (capture vmStatus keptExecMatch 3)),
           category = None, reason = None\<rparr>
      | None \<Rightarrow>
     (case rx_match abort_rx vmStatus of
        Some abortMatch \<Rightarrow>
          (let rawCode = map_option trim (capture vmStatus abortMatch 2);
               decoded = (if or_undefined rawCode \<noteq> None then decodeAbortCode rawCode else None)
           in \<lparr>status = ''Move abort'',
               abortCode = or_undefined rawCode,
               message = None,
               location = or_undefined (capture vmStatus abortMatch 1),
               category = map_option DecodedAbort.category decoded,
               reason = map_option DecodedAbort.reason decoded\<rparr>)
      | None \<Rightarrow>
     (case rx_match sessionAbort_rx vmStatus of
        Some sessionAbortMatch \<Rightarrow>
          (let decoded = decodeAbortCode (capture vmStatus sessionAbortMatch 1)
           in \<lparr>status = ''ABORTED'',
               abortCode = capture vmStatus sessionAbortMatch 1,
               message = or_undefined (map_option trim (capture vmStatus sessionAbortMatch 2)),
               location = None,
               category = map_option DecodedAbort.category decoded,
               reason = map_option DecodedAbort.reason decoded\<rparr>)
      | None \<Rightarrow>
     (case rx_match sessionError_rx vmStatus of
        Some sessionErrorMatch \<Rightarrow>
          \<lparr>status = (case capture vmStatus sessionErrorMatch 1 of None \<Rightarrow> [] | Some x \<Rightarrow> x),
           abortCode = None,
           message = or_undefined (map_option trim (capture vmStatus sessionErrorMatch 2)),
           location = None, category = None, reason = None\<rparr>
      | None \<Rightarrow>
     (case rx_match exec_rx vmStatus of
        Some execMatch \<Rightarrow>
          only_status (trim (case capture vmStatus execMatch 1 of None \<Rightarrow> [] | Some x \<Rightarrow> x))
      | None \<Rightarrow> only_status vmStatus))))))"

text \<open>The argument is whatever the envelope holds under \<^verbatim>\<open>vm_status\<close>. A falsy one gives
  \<^verbatim>\<open>unknown error\<close>; a truthy one that is not a string has no method \<^verbatim>\<open>match\<close>.\<close>

definition parseVmStatus :: "json option \<Rightarrow> error + VmStatus" where
  "parseVmStatus vmStatus =
     (case vmStatus of
        None \<Rightarrow> Inr (only_status ''unknown error'')
      | Some v \<Rightarrow>
         (if \<not> truthy v then Inr (only_status ''unknown error'')
          else (case v of
                  JString s \<Rightarrow> Inr (parseVmStatus_string s)
                | _ \<Rightarrow> Inl (TypeError ''vmStatus.match is not a function''))))"

text \<open>\<open>parseVmStatus\<close> of \<^verbatim>\<open>src/core/session.ts\<close>: the patterns \<open>abort_rx\<close> and \<open>exec_rx\<close> only,
  and no decoding of the abort code.\<close>

definition parseVmStatus_ts_string :: "string \<Rightarrow> VmStatus_ts" where
  "parseVmStatus_ts_string vmStatus =
     (case rx_match abort_rx vmStatus of
        Some abortMatch \<Rightarrow>
          \<lparr>VmStatus_ts.status = ''Move abort'',
           VmStatus_ts.abortCode = or_undefined (map_option trim (capture vmStatus abortMatch 2)),
           VmStatus_ts.location = or_undefined (capture vmStatus abortMatch 1)\<rparr>
      | None \<Rightarrow>
     (case rx_match exec_rx vmStatus of
        Some execMatch \<Rightarrow>
          \<lparr>VmStatus_ts.status = trim (case capture vmStatus execMatch 1 of None \<Rightarrow> [] | Some x \<Rightarrow> x),
           VmStatus_ts.abortCode = None, VmStatus_ts.location = None\<rparr>
      | None \<Rightarrow>
          \<lparr>VmStatus_ts.status = vmStatus, VmStatus_ts.abortCode = None,
           VmStatus_ts.location = None\<rparr>))"

definition parseVmStatus_ts :: "json option \<Rightarrow> error + VmStatus_ts" where
  "parseVmStatus_ts vmStatus =
     (case vmStatus of
        None \<Rightarrow>
          Inr \<lparr>VmStatus_ts.status = ''unknown error'', VmStatus_ts.abortCode = None,
               VmStatus_ts.location = None\<rparr>
      | Some v \<Rightarrow>
         (if \<not> truthy v
          then Inr \<lparr>VmStatus_ts.status = ''unknown error'', VmStatus_ts.abortCode = None,
                    VmStatus_ts.location = None\<rparr>
          else (case v of
                  JString s \<Rightarrow> Inr (parseVmStatus_ts_string s)
                | _ \<Rightarrow> Inl (TypeError ''vmStatus.match is not a function''))))"

record RunResult =
  success :: json
  vmStatus :: "json option"
  gasUsed :: "converted option"
  events :: "json option"
  changes :: "json option"
  raw :: string
  stderr :: "string option"

text \<open>\<^verbatim>\<open>v == null\<close>: \<^verbatim>\<open>undefined\<close> or \<^verbatim>\<open>null\<close>.\<close>

definition nullish :: "json option \<Rightarrow> bool" where
  "nullish v = (v = None \<or> v = Some JNull)"

text \<open>\<^verbatim>\<open>txResult?.gas_used != null ? Number(txResult.gas_used) : undefined\<close>\<close>

definition gas_of :: "json option \<Rightarrow> error + converted option" where
  "gas_of txResult =
     (case opt_prop txResult ''gas_used'' of
        None \<Rightarrow> Inr None
      | Some g \<Rightarrow>
          if g = JNull then Inr None
          else if stringifiable g then Inr (Some (Number g))
          else Inl no_primitive)"

text \<open>\<open>parseRunResult\<close> of \<^verbatim>\<open>dist/core/session.js\<close>. Whatever is thrown while the result is
  built, by the parser or by \<^verbatim>\<open>Number\<close>, is caught and gives the result without fields.\<close>

definition parseRunResult :: "platform \<Rightarrow> string \<Rightarrow> string \<Rightarrow> RunResult" where
  "parseRunResult P out err =
     (case parseJsonOutput P out of
        Inr parsed \<Rightarrow>
          (let txResult = get_prop parsed ''Result''
           in case gas_of txResult of
                Inr gas \<Rightarrow>
                  \<lparr>success = (case opt_prop txResult ''success'' of
                               None \<Rightarrow> JBool False
                             | Some b \<Rightarrow> if b = JNull then JBool False else b),
                   vmStatus = opt_prop txResult ''vm_status'',
                   gasUsed = gas,
                   events = opt_prop txResult ''events'',
                   changes = opt_prop txResult ''changes'',
                   raw = out,
                   stderr = or_undefined (Some err)\<rparr>
              | Inl e \<Rightarrow>
                  \<lparr>success = JBool False, vmStatus = None, gasUsed = None, events = None,
                   changes = None, raw = out, stderr = or_undefined (Some err)\<rparr>)
      | Inl e \<Rightarrow>
          \<lparr>success = JBool False, vmStatus = None, gasUsed = None, events = None,
           changes = None, raw = out, stderr = or_undefined (Some err)\<rparr>)"

subsection \<open>Options and results (\<^verbatim>\<open>types/config\<close>, \<^verbatim>\<open>types/results\<close>)\<close>

text \<open>An optional field is an option. \<open>namedAddresses\<close> lists the entries of the object in the
  order of \<^verbatim>\<open>Object.entries\<close>. A field typed by the source but filled from the envelope
  (\<open>moduleIds\<close>, \<open>transactionHash\<close>, \<open>success\<close> of a run) holds whatever JSON value was there.\<close>

record CompileOptions =
  packageDir :: string
  namedAddresses :: "(string \<times> string) list option"
  saveMetadata :: "bool option"
  outputDir :: "string option"
  skipFetchLatestGitDeps :: "bool option"
  dev :: "bool option"

record PublishOptions =
  packageDir :: string
  namedAddresses :: "(string \<times> string) list option"
  senderAddress :: string
  privateKey :: string
  includedArtifacts :: "string option"
  overrideSizeCheck :: "bool option"

text \<open>\<^verbatim>\<open>CompileOptions & PublishOptions\<close>: one object with the fields of both.\<close>

record CompileAndPublishOptions =
  packageDir :: string
  namedAddresses :: "(string \<times> string) list option"
  saveMetadata :: "bool option"
  outputDir :: "string option"
  skipFetchLatestGitDeps :: "bool option"
  dev :: "bool option"
  senderAddress :: string
  privateKey :: string
  includedArtifacts :: "string option"
  overrideSizeCheck :: "bool option"

definition as_CompileOptions :: "CompileAndPublishOptions \<Rightarrow> CompileOptions" where
  "as_CompileOptions options =
     \<lparr>CompileOptions.packageDir = CompileAndPublishOptions.packageDir options,
      namedAddresses = CompileAndPublishOptions.namedAddresses options,
      saveMetadata = CompileAndPublishOptions.saveMetadata options,
      outputDir = CompileAndPublishOptions.outputDir options,
      skipFetchLatestGitDeps = CompileAndPublishOptions.skipFetchLatestGitDeps options,
      dev = CompileAndPublishOptions.dev options\<rparr>"

definition as_PublishOptions :: "CompileAndPublishOptions \<Rightarrow> PublishOptions" where
  "as_PublishOptions options =
     \<lparr>PublishOptions.packageDir = CompileAndPublishOptions.packageDir options,
      namedAddresses = CompileAndPublishOptions.namedAddresses options,
      senderAddress = CompileAndPublishOptions.senderAddress options,
      privateKey = CompileAndPublishOptions.privateKey options,
      includedArtifacts = CompileAndPublishOptions.includedArtifacts options,
      overrideSizeCheck = CompileAndPublishOptions.overrideSizeCheck options\<rparr>"

record RunOptions =
  functionId :: string
  typeArgs :: "string list option"
  args :: "string list option"
  senderAddress :: string
  privateKey :: string
  maxGas :: "nat option"

record ViewOptions =
  functionId :: string
  typeArgs :: "string list option"
  args :: "string list option"

record RunScriptOptions =
  scriptPath :: string
  typeArgs :: "string list option"
  args :: "string list option"
  senderAddress :: string
  privateKey :: string

text \<open>\<^verbatim>\<open>amount: string | number\<close>; a number is a natural number below \<open>10\<^sup>2\<^sup>1\<close> here, which
  \<^verbatim>\<open>String\<close> writes in decimal digits.\<close>

datatype amount = AmountString string | AmountNumber nat

fun String_of_amount :: "amount \<Rightarrow> string" where
  "String_of_amount (AmountString s) = s"
| "String_of_amount (AmountNumber n) = String_of_nat n"

record FundOptions =
  account :: string
  amount :: amount

record ViewResourceOptions =
  account :: string
  resource :: string

record CompileResult =
  moduleIds :: json
  buildDir :: string
  raw :: string

record PublishResult =
  success :: bool
  transactionHash :: "json option"
  gasUsed :: "converted option"
  raw :: string

record ViewResult =
  returnValues :: "json option"
  raw :: string

record FundResult =
  success :: bool
  raw :: string

record ViewResourceResult =
  data :: "json option"
  raw :: string

subsection \<open>The session (\<^verbatim>\<open>core/session\<close>)\<close>

text \<open>\<open>buildDirs\<close> is a \<^verbatim>\<open>Set\<close> of strings: a list without repetition, in the order of
  insertion. \<open>log_enabled\<close> is the field \<^verbatim>\<open>enabled\<close> of the \<^verbatim>\<open>Logger\<close> in the field \<^verbatim>\<open>log\<close>: the
  constructor sets it to \<^verbatim>\<open>!config.silent\<close>.\<close>

record session =
  sessionPath :: string
  network :: string
  aptosBin :: string
  commandTimeout :: nat
  persist :: bool
  apiKey :: "string option"
  log_enabled :: bool
  destroyed :: bool
  buildDirs :: "string list"

text \<open>\<^verbatim>\<open>log.detail(key, value)\<close> and the first line of detail of \<^verbatim>\<open>log.vmError\<close>: nothing happens
  when the logger is disabled; otherwise the value is put into a template literal.\<close>

definition log_detail :: "session \<Rightarrow> json \<Rightarrow> error option" where
  "log_detail s v = (if log_enabled s \<and> \<not> stringifiable v then Some no_primitive else None)"

definition Set_add :: "string \<Rightarrow> string list \<Rightarrow> string list" where
  "Set_add x xs = (if x \<in> set xs then xs else xs @ [x])"

definition Set_delete :: "string \<Rightarrow> string list \<Rightarrow> string list" where
  "Set_delete x xs = removeAll x xs"

definition formatNamedAddresses :: "(string \<times> string) list \<Rightarrow> string" where
  "formatNamedAddresses addrs = join_with '','' (map (\<lambda>kv. fst kv @ ''='' @ snd kv) addrs)"

text \<open>\<^verbatim>\<open>if (xs?.length) args.push(flag, ...xs)\<close>\<close>

definition spread :: "string \<Rightarrow> string list option \<Rightarrow> string list" where
  "spread flag xs = (case xs of None \<Rightarrow> [] | Some ys \<Rightarrow> if ys = [] then [] else flag # ys)"

definition named_addresses_args :: "(string \<times> string) list option \<Rightarrow> string list" where
  "named_addresses_args addrs =
     (case addrs of None \<Rightarrow> [] | Some a \<Rightarrow> [''--named-addresses'', formatNamedAddresses a])"

definition exec ::
  "platform \<Rightarrow> session \<Rightarrow> string list \<Rightarrow> string option \<Rightarrow> world \<Rightarrow> (error + ExecResult) \<times> world" where
  "exec P s argv dir w =
     executeAptosCli P (aptosBin s) argv
       \<lparr>timeout = commandTimeout s, cwd = dir, allowFailure = False\<rparr> w"

definition resolved_buildDir :: "platform \<Rightarrow> string \<Rightarrow> string option \<Rightarrow> string" where
  "resolved_buildDir P pkg out =
     path_resolve P (case out of Some d \<Rightarrow> d | None \<Rightarrow> path_join P pkg ''build'')"

text \<open>\<open>cleanBuildDir\<close> is a method of \<^verbatim>\<open>dist/core/session.js\<close> only, declared in the
  declaration file of the compiled class as the method that removes the build directory
  of a package and untracks it: \<^verbatim>\<open>src/core/session.ts\<close> has no such method.\<close>

definition cleanBuildDir ::
  "platform \<Rightarrow> string \<Rightarrow> string option \<Rightarrow> session \<Rightarrow> world \<Rightarrow> session \<times> world" where
  "cleanBuildDir P pkg out s w =
     (let dir = resolved_buildDir P pkg out
      in (s\<lparr>buildDirs := Set_delete dir (buildDirs s)\<rparr>,
          if existsSync dir w then rmSync dir w else w))"

definition remove_if_exists :: "string \<Rightarrow> world \<Rightarrow> world" where
  "remove_if_exists dir w = (if existsSync dir w then rmSync dir w else w)"

definition destroy :: "session \<Rightarrow> world \<Rightarrow> session \<times> world" where
  "destroy s w =
     (if destroyed s then (s, w)
      else (let w1 = fold remove_if_exists (buildDirs s) w;
                w2 = (if \<not> persist s \<and> existsSync (sessionPath s) w1
                      then rmSync (sessionPath s) w1 else w1)
            in (s\<lparr>destroyed := True, buildDirs := []\<rparr>, w2)))"

definition generateAccount ::
  "platform \<Rightarrow> session \<Rightarrow> world \<Rightarrow> (error + GeneratedAccount) \<times> session \<times> world" where
  "generateAccount P s w =
     (let (account, e) = Account_generate P (entropy w)
      in (Inr \<lparr>address = GeneratedAccount.address account,
               privateKey = GeneratedAccount.privateKey account,
               publicKey = GeneratedAccount.publicKey account\<rparr>,
          s, w\<lparr>entropy := e\<rparr>))"

definition compile_args :: "platform \<Rightarrow> CompileOptions \<Rightarrow> string list" where
  "compile_args P options =
     [''move'', ''compile'']
     @ (if CompileOptions.saveMetadata options \<noteq> Some False then [''--save-metadata''] else [])
     @ [''--package-dir'', path_resolve P (CompileOptions.packageDir options)]
     @ named_addresses_args (CompileOptions.namedAddresses options)
     @ (case CompileOptions.outputDir options of
          None \<Rightarrow> []
        | Some d \<Rightarrow> if d = [] then [] else [''--output-dir'', path_resolve P d])
     @ (if CompileOptions.skipFetchLatestGitDeps options = Some True
        then [''--skip-fetch-latest-git-deps''] else [])
     @ (if CompileOptions.dev options = Some True then [''--dev''] else [])"

text \<open>The \<^verbatim>\<open>catch\<close> branch of \<open>compile\<close> in \<^verbatim>\<open>dist/core/session.js\<close>: the build directory is
  removed and untracked before anything is thrown.\<close>

definition compile_catch ::
  "platform \<Rightarrow> CompileOptions \<Rightarrow> error \<Rightarrow> session \<Rightarrow> world
     \<Rightarrow> (error + CompileResult) \<times> session \<times> world" where
  "compile_catch P options err s w =
     (let (s', w') = cleanBuildDir P (CompileOptions.packageDir options)
                       (CompileOptions.outputDir options) s w
      in (if or_undefined (err_stderr err) \<noteq> None
          then Inl (CompilationError
                      (''Move compilation failed for '' @ CompileOptions.packageDir options)
                      (case err_stderr err of None \<Rightarrow> [] | Some d \<Rightarrow> d))
          else Inl err,
          s', w'))"

text \<open>The \<^verbatim>\<open>catch\<close> branch of \<open>compile\<close> in \<^verbatim>\<open>src/core/session.ts\<close>: the same errors, and
  neither the disk nor the tracked set is touched.\<close>

definition compile_catch_ts ::
  "CompileOptions \<Rightarrow> error \<Rightarrow> session \<Rightarrow> world
     \<Rightarrow> (error + CompileResult) \<times> session \<times> world" where
  "compile_catch_ts options err s w =
     (if or_undefined (err_stderr err) \<noteq> None
      then Inl (CompilationError
                  (''Move compilation failed for '' @ CompileOptions.packageDir options)
                  (case err_stderr err of None \<Rightarrow> [] | Some d \<Rightarrow> d))
      else Inl err,
      s, w)"

text \<open>\<^verbatim>\<open>for (const id of moduleIds)\<close> needs an iterable: an array or a string.\<close>

fun iterable :: "json \<Rightarrow> bool" where
  "iterable (JArray xs) = True"
| "iterable (JString x) = True"
| "iterable _ = False"

text \<open>What the \<^verbatim>\<open>try\<close> block of \<open>compile\<close> throws after the directory has been tracked, if
  anything. The message of \<^verbatim>\<open>log.done\<close> converts \<^verbatim>\<open>moduleIds.length\<close>, a number for an array or
  a string, \<^verbatim>\<open>undefined\<close> for another primitive and the member \<^verbatim>\<open>length\<close> for an object; the
  loop then needs an iterable and shows each element with \<^verbatim>\<open>log.detail\<close> (the elements of a
  string are strings).\<close>

definition compile_log :: "session \<Rightarrow> json \<Rightarrow> error option" where
  "compile_log s ids =
     (if (case ids of
            JObject ms \<Rightarrow> (case lookup_last ms ''length'' of
                             None \<Rightarrow> False | Some l \<Rightarrow> \<not> stringifiable l)
          | _ \<Rightarrow> False)
      then Some no_primitive
      else if \<not> iterable ids then Some (TypeError ''moduleIds is not iterable'')
      else log_detail s ids)"

text \<open>\<open>compile\<close> of \<^verbatim>\<open>dist/core/session.js\<close>.\<close>

definition compile ::
  "platform \<Rightarrow> CompileOptions \<Rightarrow> session \<Rightarrow> world \<Rightarrow> (error + CompileResult) \<times> session \<times> world" where
  "compile P options s w =
     (if destroyed s then (Inl SessionDestroyedError, s, w)
      else (let (r, w1) = exec P s (compile_args P options)
                            (Some (CompileOptions.packageDir options)) w
            in case r of
                 Inl err \<Rightarrow> compile_catch P options err s w1
               | Inr result \<Rightarrow>
                  (case extractResult P (stdout result) of
                     Inl err \<Rightarrow> compile_catch P options err s w1
                   | Inr parsed \<Rightarrow>
                      (let ids = (if nullish (opt_prop parsed ''module_ids'') then JArray []
                                  else (case opt_prop parsed ''module_ids'' of
                                          None \<Rightarrow> JArray [] | Some v \<Rightarrow> v));
                           dir = resolved_buildDir P (CompileOptions.packageDir options)
                                   (CompileOptions.outputDir options);
                           s1 = s\<lparr>buildDirs := Set_add dir (buildDirs s)\<rparr>
                       in case compile_log s ids of
                            Some err \<Rightarrow> compile_catch P options err s1 w1
                          | None \<Rightarrow>
                              (Inr \<lparr>moduleIds = ids, buildDir = dir, raw = stdout result\<rparr>,
                               s1, w1)))))"

text \<open>\<open>compile\<close> of \<^verbatim>\<open>src/core/session.ts\<close>: the same but for the \<^verbatim>\<open>catch\<close> branch.\<close>

definition compile_ts ::
  "platform \<Rightarrow> CompileOptions \<Rightarrow> session \<Rightarrow> world \<Rightarrow> (error + CompileResult) \<times> session \<times> world" where
  "compile_ts P options s w =
     (if destroyed s then (Inl SessionDestroyedError, s, w)
      else (let (r, w1) = exec P s (compile_args P options)
                            (Some (CompileOptions.packageDir options)) w
            in case r of
                 Inl err \<Rightarrow> compile_catch_ts options err s w1
               | Inr result \<Rightarrow>
                  (case extractResult P (stdout result) of
                     Inl err \<Rightarrow> compile_catch_ts options err s w1
                   | Inr parsed \<Rightarrow>
                      (let ids = (if nullish (opt_prop parsed ''module_ids'') then JArray []
                                  else (case opt_prop parsed ''module_ids'' of
                                          None \<Rightarrow> JArray [] | Some v \<Rightarrow> v));
                           dir = resolved_buildDir P (CompileOptions.packageDir options)
                                   (CompileOptions.outputDir options);
                           s1 = s\<lparr>buildDirs := Set_add dir (buildDirs s)\<rparr>
                       in case compile_log s ids of
                            Some err \<Rightarrow> compile_catch_ts options err s1 w1
                          | None \<Rightarrow>
                              (Inr \<lparr>moduleIds = ids, buildDir = dir, raw = stdout result\<rparr>,
                               s1, w1)))))"

definition publish_args :: "platform \<Rightarrow> session \<Rightarrow> PublishOptions \<Rightarrow> string list" where
  "publish_args P s options =
     [''move'', ''publish'', ''--session'', sessionPath s,
      ''--package-dir'', path_resolve P (PublishOptions.packageDir options),
      ''--sender-account'', PublishOptions.senderAddress options,
      ''--private-key'', PublishOptions.privateKey options,
      ''--assume-yes'']
     @ named_addresses_args (PublishOptions.namedAddresses options)
     @ (case PublishOptions.includedArtifacts options of
          None \<Rightarrow> []
        | Some a \<Rightarrow> if a = [] then [] else [''--included-artifacts'', a])
     @ (if PublishOptions.overrideSizeCheck options = Some True
        then [''--override-size-check''] else [])"

text \<open>The interpretation of the output of \<open>publish\<close>, the same in both files: \<open>success\<close> starts
  as \<^verbatim>\<open>true\<close> and the \<^verbatim>\<open>catch\<close> around the interpretation is empty, so that whatever is thrown
  there, by the parser or by \<^verbatim>\<open>Number\<close>, leaves the variables as they are at that point:
  \<open>transactionHash\<close> is assigned before \<^verbatim>\<open>Number\<close> is called, \<open>success\<close> after.\<close>

definition publish_result :: "platform \<Rightarrow> string \<Rightarrow> PublishResult" where
  "publish_result P out =
     (case parseJsonOutput P out of
        Inl e \<Rightarrow>
          \<lparr>PublishResult.success = True, transactionHash = None, gasUsed = None, raw = out\<rparr>
      | Inr parsed \<Rightarrow>
          (if isErrorOutput P out
           then \<lparr>PublishResult.success = False, transactionHash = None, gasUsed = None, raw = out\<rparr>
           else (let txResult = get_prop parsed ''Result''
                 in case gas_of txResult of
                      Inl e \<Rightarrow>
                        \<lparr>PublishResult.success = True,
                         transactionHash = opt_prop txResult ''transaction_hash'',
                         gasUsed = None, raw = out\<rparr>
                    | Inr gas \<Rightarrow>
                        \<lparr>PublishResult.success = (opt_prop txResult ''success'' \<noteq> Some (JBool False)),
                         transactionHash = opt_prop txResult ''transaction_hash'',
                         gasUsed = gas, raw = out\<rparr>)))"

text \<open>The local variable \<open>vmStatus\<close> of \<open>publish\<close> after the interpretation.\<close>

definition publish_vmStatus :: "platform \<Rightarrow> string \<Rightarrow> json option" where
  "publish_vmStatus P out =
     (case parseJsonOutput P out of
        Inl e \<Rightarrow> None
      | Inr parsed \<Rightarrow>
          (if isErrorOutput P out then get_prop parsed ''Error''
           else (let txResult = get_prop parsed ''Result''
                 in case gas_of txResult of
                      Inl e \<Rightarrow> None
                    | Inr gas \<Rightarrow>
                        if opt_prop txResult ''success'' = Some (JBool False)
                        then opt_prop txResult ''vm_status'' else None)))"

text \<open>What the logging at the end of \<open>publish\<close> throws, if anything: on success
  \<^verbatim>\<open>if (transactionHash) this.log.detail("tx", transactionHash)\<close>, otherwise \<^verbatim>\<open>log.vmError\<close> with
  \<^verbatim>\<open>vmStatus ?? "Publish failed"\<close>.\<close>

definition publish_log :: "session \<Rightarrow> PublishResult \<Rightarrow> json option \<Rightarrow> error option" where
  "publish_log s r vm =
     (if PublishResult.success r
      then (case transactionHash r of
              None \<Rightarrow> None
            | Some h \<Rightarrow> if truthy h then log_detail s h else None)
      else (if nullish vm then None
            else (case vm of None \<Rightarrow> None | Some v \<Rightarrow> log_detail s v)))"

text \<open>\<open>publish\<close> once the process has returned, the same in both files.\<close>

definition publish_returned ::
  "platform \<Rightarrow> ExecResult \<Rightarrow> session \<Rightarrow> world \<Rightarrow> (error + PublishResult) \<times> session \<times> world" where
  "publish_returned P result s w =
     (case publish_log s (publish_result P (stdout result)) (publish_vmStatus P (stdout result)) of
        Some err \<Rightarrow> (Inl err, s, w)
      | None \<Rightarrow> (Inr (publish_result P (stdout result)), s, w))"

text \<open>\<open>publish\<close> of \<^verbatim>\<open>dist/core/session.js\<close>: when the process fails, the build directory
  \<^verbatim>\<open><packageDir>/build\<close> is removed and untracked before the error is thrown again.\<close>

definition publish ::
  "platform \<Rightarrow> PublishOptions \<Rightarrow> session \<Rightarrow> world \<Rightarrow> (error + PublishResult) \<times> session \<times> world" where
  "publish P options s w =
     (if destroyed s then (Inl SessionDestroyedError, s, w)
      else (let (r, w1) = exec P s (publish_args P s options)
                            (Some (PublishOptions.packageDir options)) w
            in case r of
                 Inl err \<Rightarrow>
                   (let (s', w') = cleanBuildDir P (PublishOptions.packageDir options) None s w1
                    in (Inl err, s', w'))
               | Inr result \<Rightarrow> publish_returned P result s w1))"

text \<open>\<open>publish\<close> of \<^verbatim>\<open>src/core/session.ts\<close>: when the process fails, the error is thrown again
  and nothing else is done.\<close>

definition publish_ts ::
  "platform \<Rightarrow> PublishOptions \<Rightarrow> session \<Rightarrow> world \<Rightarrow> (error + PublishResult) \<times> session \<times> world" where
  "publish_ts P options s w =
     (if destroyed s then (Inl SessionDestroyedError, s, w)
      else (let (r, w1) = exec P s (publish_args P s options)
                            (Some (PublishOptions.packageDir options)) w
            in case r of
                 Inl err \<Rightarrow> (Inl err, s, w1)
               | Inr result \<Rightarrow> publish_returned P result s w1))"

definition compileAndPublish ::
  "platform \<Rightarrow> CompileAndPublishOptions \<Rightarrow> session \<Rightarrow> world
     \<Rightarrow> (error + PublishResult) \<times> session \<times> world" where
  "compileAndPublish P options s w =
     (case compile P (as_CompileOptions options) s w of
        (Inl err, s1, w1) \<Rightarrow> (Inl err, s1, w1)
      | (Inr compiled, s1, w1) \<Rightarrow> publish P (as_PublishOptions options) s1 w1)"

definition compileAndPublish_ts ::
  "platform \<Rightarrow> CompileAndPublishOptions \<Rightarrow> session \<Rightarrow> world
     \<Rightarrow> (error + PublishResult) \<times> session \<times> world" where
  "compileAndPublish_ts P options s w =
     (case compile_ts P (as_CompileOptions options) s w of
        (Inl err, s1, w1) \<Rightarrow> (Inl err, s1, w1)
      | (Inr compiled, s1, w1) \<Rightarrow> publish_ts P (as_PublishOptions options) s1 w1)"

definition run_args :: "session \<Rightarrow> RunOptions \<Rightarrow> string list" where
  "run_args s options =
     [''move'', ''run'', ''--session'', sessionPath s,
      ''--function-id'', RunOptions.functionId options,
      ''--sender-account'', RunOptions.senderAddress options,
      ''--private-key'', RunOptions.privateKey options,
      ''--assume-yes'']
     @ spread ''--type-args'' (RunOptions.typeArgs options)
     @ spread ''--args'' (RunOptions.args options)
     @ (case maxGas options of None \<Rightarrow> [] | Some g \<Rightarrow> [''--max-gas'', String_of_nat g])"

text \<open>After the process has returned, \<open>run\<close> and \<open>runScript\<close> do the same: the result is
  interpreted and, when it is not a success, the VM status is decoded for the log.\<close>

definition interpret_run ::
  "platform \<Rightarrow> ExecResult \<Rightarrow> session \<Rightarrow> world \<Rightarrow> (error + RunResult) \<times> session \<times> world" where
  "interpret_run P result s w =
     (let runResult = parseRunResult P (stdout result) (ExecResult.stderr result)
      in if truthy (RunResult.success runResult) then (Inr runResult, s, w)
         else (case parseVmStatus (vmStatus runResult) of
                 Inl err \<Rightarrow> (Inl err, s, w)
               | Inr parsed \<Rightarrow> (Inr runResult, s, w)))"

definition run ::
  "platform \<Rightarrow> RunOptions \<Rightarrow> session \<Rightarrow> world \<Rightarrow> (error + RunResult) \<times> session \<times> world" where
  "run P options s w =
     (if destroyed s then (Inl SessionDestroyedError, s, w)
      else (let (r, w1) = exec P s (run_args s options) None w
            in case r of
                 Inl err \<Rightarrow> (Inl err, s, w1)
               | Inr result \<Rightarrow> interpret_run P result s w1))"

definition view_args :: "session \<Rightarrow> ViewOptions \<Rightarrow> string list" where
  "view_args s options =
     [''move'', ''view'', ''--session'', sessionPath s,
      ''--function-id'', ViewOptions.functionId options]
     @ spread ''--type-args'' (ViewOptions.typeArgs options)
     @ spread ''--args'' (ViewOptions.args options)"

definition view ::
  "platform \<Rightarrow> ViewOptions \<Rightarrow> session \<Rightarrow> world \<Rightarrow> (error + ViewResult) \<times> session \<times> world" where
  "view P options s w =
     (if destroyed s then (Inl SessionDestroyedError, s, w)
      else (let (r, w1) = exec P s (view_args s options) None w
            in case r of
                 Inl err \<Rightarrow> (Inl err, s, w1)
               | Inr result \<Rightarrow>
                  (case extractResult P (stdout result) of
                     Inl err \<Rightarrow> (Inl err, s, w1)
                   | Inr parsed \<Rightarrow>
                       (Inr \<lparr>returnValues = parsed, raw = stdout result\<rparr>, s, w1))))"

definition runScript_args :: "platform \<Rightarrow> session \<Rightarrow> RunScriptOptions \<Rightarrow> string list" where
  "runScript_args P s options =
     [''move'', ''run-script'', ''--session'', sessionPath s,
      ''--compiled-script-path'', path_resolve P (scriptPath options),
      ''--sender-account'', RunScriptOptions.senderAddress options,
      ''--private-key'', RunScriptOptions.privateKey options,
      ''--assume-yes'']
     @ spread ''--type-args'' (RunScriptOptions.typeArgs options)
     @ spread ''--args'' (RunScriptOptions.args options)"

definition runScript ::
  "platform \<Rightarrow> RunScriptOptions \<Rightarrow> session \<Rightarrow> world \<Rightarrow> (error + RunResult) \<times> session \<times> world" where
  "runScript P options s w =
     (if destroyed s then (Inl SessionDestroyedError, s, w)
      else (let (r, w1) = exec P s (runScript_args P s options) None w
            in case r of
                 Inl err \<Rightarrow> (Inl err, s, w1)
               | Inr result \<Rightarrow> interpret_run P result s w1))"

definition fund_args :: "session \<Rightarrow> FundOptions \<Rightarrow> string list" where
  "fund_args s options =
     [''move'', ''sim'', ''fund'', ''--session'', sessionPath s,
      ''--account'', FundOptions.account options,
      ''--amount'', String_of_amount (amount options)]"

definition fund ::
  "platform \<Rightarrow> FundOptions \<Rightarrow> session \<Rightarrow> world \<Rightarrow> (error + FundResult) \<times> session \<times> world" where
  "fund P options s w =
     (if destroyed s then (Inl SessionDestroyedError, s, w)
      else (let (r, w1) = exec P s (fund_args s options) None w
            in case r of
                 Inl err \<Rightarrow> (Inl err, s, w1)
               | Inr result \<Rightarrow>
                   (Inr \<lparr>FundResult.success = True, raw = stdout result\<rparr>, s, w1)))"

definition viewResource_args :: "session \<Rightarrow> ViewResourceOptions \<Rightarrow> string list" where
  "viewResource_args s options =
     [''move'', ''sim'', ''view-resource'', ''--session'', sessionPath s,
      ''--account'', ViewResourceOptions.account options,
      ''--resource'', resource options]"

definition viewResource ::
  "platform \<Rightarrow> ViewResourceOptions \<Rightarrow> session \<Rightarrow> world
     \<Rightarrow> (error + ViewResourceResult) \<times> session \<times> world" where
  "viewResource P options s w =
     (if destroyed s then (Inl SessionDestroyedError, s, w)
      else (let (r, w1) = exec P s (viewResource_args s options) None w
            in case r of
                 Inl err \<Rightarrow> (Inl err, s, w1)
               | Inr result \<Rightarrow>
                  (case extractResult P (stdout result) of
                     Inl err \<Rightarrow> (Inl err, s, w1)
                   | Inr parsed \<Rightarrow>
                       (Inr \<lparr>data = parsed, raw = stdout result\<rparr>, s, w1))))"

subsection \<open>A platform for the concrete examples\<close>

text \<open>The reference \<^verbatim>\<open>JSON.parse\<close>; paths that are absolute already, joined by \<^verbatim>\<open>/\<close>; a key
  generator that numbers its accounts; and a child process given by a function from the
  arguments of the call.\<close>

definition demo_account :: "nat \<Rightarrow> GeneratedAccount \<times> nat" where
  "demo_account n =
     (\<lparr>address = ''0xa'' @ String_of_nat n, privateKey = ''0xb'' @ String_of_nat n,
       publicKey = ''0xc'' @ String_of_nat n\<rparr>, Suc n)"

definition demo_platform ::
  "(string list \<Rightarrow> world \<Rightarrow> ChildOutput \<times> string set) \<Rightarrow> platform" where
  "demo_platform child =
     \<lparr>JSON_parse = ecma_JSON_parse,
      path_resolve = (\<lambda>p. p),
      path_join = (\<lambda>a b. a @ ''/'' @ b),
      execFile = (\<lambda>binaryPath argv options w. child argv w),
      Account_generate = demo_account\<rparr>"

text \<open>A child that exits zero with the given output and leaves the disk as it is, and one
  that exits with code 1.\<close>

definition child_ok :: "string \<Rightarrow> string list \<Rightarrow> world \<Rightarrow> ChildOutput \<times> string set" where
  "child_ok out argv w =
     (\<lparr>child_error = None, child_stdout = out, child_stderr = []\<rparr>, disk w)"

definition child_fails :: "string \<Rightarrow> string list \<Rightarrow> world \<Rightarrow> ChildOutput \<times> string set" where
  "child_fails err argv w =
     (\<lparr>child_error = Some \<lparr>error_code = Some 1, error_status = None\<rparr>,
       child_stdout = [], child_stderr = err\<rparr>, disk w)"

definition demo_session :: session where
  "demo_session =
     \<lparr>sessionPath = ''/tmp/s'', network = ''devnet'', aptosBin = ''aptos'',
      commandTimeout = 120000, persist = False, apiKey = None, log_enabled = True,
      destroyed = False, buildDirs = [''/pkg/build'']\<rparr>"

definition demo_world :: world where
  "demo_world =
     \<lparr>disk = {''/tmp/s'', ''/tmp/s/state'', ''/pkg'', ''/pkg/build'', ''/pkg/build/m.mv''},
      invocations = [], entropy = 0\<rparr>"

definition demo_compile :: CompileOptions where
  "demo_compile = \<lparr>CompileOptions.packageDir = ''/pkg'', namedAddresses = None, saveMetadata = None,
     outputDir = None, skipFetchLatestGitDeps = None, dev = None\<rparr>"

definition demo_publish :: PublishOptions where
  "demo_publish = \<lparr>PublishOptions.packageDir = ''/pkg'', namedAddresses = None,
     senderAddress = ''0xa0'', privateKey = ''0xb0'', includedArtifacts = None,
     overrideSizeCheck = None\<rparr>"

definition demo_view :: ViewOptions where
  "demo_view = \<lparr>ViewOptions.functionId = ''0x1::coin::balance'', typeArgs = None, args = None\<rparr>"

definition demo_run :: RunOptions where
  "demo_run = \<lparr>RunOptions.functionId = ''0x1::m::f'', typeArgs = None, args = None,
     senderAddress = ''0xa0'', privateKey = ''0xb0'', maxGas = None\<rparr>"

subsection \<open>Abort codes as numerals\<close>

text \<open>The notions of the specification of the decoder, stated apart from the code: a code
  given as a decimal numeral or as a hexadecimal numeral with the prefix \<^verbatim>\<open>0x\<close>, its value,
  its category byte \<^verbatim>\<open>(code >> 16) & 0xFF\<close> and its low 16 bits.\<close>

definition decimal_numeral :: "string \<Rightarrow> bool" where
  "decimal_numeral s = (s \<noteq> [] \<and> list_all isDigit s)"

definition hex_numeral :: "string \<Rightarrow> bool" where
  "hex_numeral s = (startsWith s ''0x'' \<and> drop 2 s \<noteq> [] \<and> list_all isHexDigit (drop 2 s))"

definition numeral_value :: "string \<Rightarrow> nat" where
  "numeral_value s =
     (if startsWith s ''0x'' then digits_value 16 (drop 2 s) else digits_value 10 s)"

definition category_byte :: "nat \<Rightarrow> int" where
  "category_byte n = int ((n div 2 ^ 16) mod 256)"

definition low16 :: "nat \<Rightarrow> int" where
  "low16 n = int (n mod 2 ^ 16)"

section \<open>Properties\<close>

subsection \<open>Lifecycle\<close>

lemma destroy_destroyed: "destroyed (fst (destroy s w))"
  by (simp add: destroy_def Let_def)

text \<open>
  Claim C1. After \<open>destroy\<close> has completed on a session, each of \<open>compile\<close>, \<open>publish\<close>,
  \<open>compileAndPublish\<close>, \<open>run\<close>, \<open>view\<close>, \<open>runScript\<close>, \<open>fund\<close> and \<open>viewResource\<close> throws
  \<open>SessionDestroyedError\<close> and leaves the session and the world as they were: in particular
  the log of invocations of the external process is the same, so the process adapter has
  been called zero times.
\<close>

theorem gated_operations_fail_after_destroy:
  "compile P co (fst (destroy s w0)) w = (Inl SessionDestroyedError, fst (destroy s w0), w)
   \<and> publish P po (fst (destroy s w0)) w = (Inl SessionDestroyedError, fst (destroy s w0), w)
   \<and> compileAndPublish P cpo (fst (destroy s w0)) w
       = (Inl SessionDestroyedError, fst (destroy s w0), w)
   \<and> run P ro (fst (destroy s w0)) w = (Inl SessionDestroyedError, fst (destroy s w0), w)
   \<and> view P vo (fst (destroy s w0)) w = (Inl SessionDestroyedError, fst (destroy s w0), w)
   \<and> runScript P so (fst (destroy s w0)) w = (Inl SessionDestroyedError, fst (destroy s w0), w)
   \<and> fund P fo (fst (destroy s w0)) w = (Inl SessionDestroyedError, fst (destroy s w0), w)
   \<and> viewResource P vro (fst (destroy s w0)) w
       = (Inl SessionDestroyedError, fst (destroy s w0), w)"
  by (simp add: destroy_destroyed compile_def publish_def compileAndPublish_def run_def view_def
      runScript_def fund_def viewResource_def)

text \<open>The guard is the first statement of \<open>compile\<close> and \<open>publish\<close> in \<^verbatim>\<open>src/core/session.ts\<close> as
  well.\<close>

lemma gated_operations_ts_fail_after_destroy:
  "compile_ts P co (fst (destroy s w0)) w = (Inl SessionDestroyedError, fst (destroy s w0), w)
   \<and> publish_ts P po (fst (destroy s w0)) w = (Inl SessionDestroyedError, fst (destroy s w0), w)
   \<and> compileAndPublish_ts P cpo (fst (destroy s w0)) w
       = (Inl SessionDestroyedError, fst (destroy s w0), w)"
  by (simp add: destroy_destroyed compile_ts_def publish_ts_def compileAndPublish_ts_def)

text \<open>
  Claim C10. \<open>generateAccount\<close> is not gated by the lifecycle: on every session, destroyed or
  not, it returns the key pair the generator gives, throws nothing, leaves the session as it
  is and calls no external process.
\<close>

theorem generateAccount_not_gated:
  "fst (generateAccount P s w) = Inr (fst (Account_generate P (entropy w)))
   \<and> fst (generateAccount P (fst (destroy s w0)) w) = Inr (fst (Account_generate P (entropy w)))
   \<and> fst (snd (generateAccount P s w)) = s
   \<and> invocations (snd (snd (generateAccount P s w))) = invocations w
   \<and> disk (snd (snd (generateAccount P s w))) = disk w"
  by (simp add: generateAccount_def split: prod.splits)

subsection \<open>Teardown\<close>

lemma rmSync_gone: "p \<notin> disk (rmSync p w)"
  by (simp add: rmSync_def within_def)

lemma rmSync_subset: "disk (rmSync p w) \<subseteq> disk w"
  by (auto simp: rmSync_def)

lemma rmSync_other: "invocations (rmSync p w) = invocations w" "entropy (rmSync p w) = entropy w"
  by (simp_all add: rmSync_def)

lemma remove_if_exists_gone: "p \<notin> disk (remove_if_exists p w)"
  by (simp add: remove_if_exists_def existsSync_def rmSync_gone)

lemma remove_if_exists_subset: "disk (remove_if_exists p w) \<subseteq> disk w"
  using rmSync_subset by (auto simp: remove_if_exists_def)

lemma remove_if_exists_keeps:
  "q \<in> disk w \<Longrightarrow> \<not> within p q \<Longrightarrow> q \<in> disk (remove_if_exists p w)"
  by (simp add: remove_if_exists_def rmSync_def)

lemma remove_if_exists_invocations: "invocations (remove_if_exists p w) = invocations w"
  by (simp add: remove_if_exists_def rmSync_def)

lemma fold_remove_subset: "disk (fold remove_if_exists ds w) \<subseteq> disk w"
proof (induction ds arbitrary: w)
  case Nil
  show ?case by simp
next
  case (Cons d ds)
  have "disk (fold remove_if_exists ds (remove_if_exists d w)) \<subseteq> disk (remove_if_exists d w)"
    by (rule Cons.IH)
  also have "\<dots> \<subseteq> disk w" by (rule remove_if_exists_subset)
  finally show ?case by simp
qed

lemma fold_remove_gone: "d \<in> set ds \<Longrightarrow> d \<notin> disk (fold remove_if_exists ds w)"
proof (induction ds arbitrary: w)
  case Nil
  then show ?case by simp
next
  case (Cons a ds)
  show ?case
  proof (cases "d = a")
    case True
    have "a \<notin> disk (remove_if_exists a w)" by (rule remove_if_exists_gone)
    with fold_remove_subset [of ds "remove_if_exists a w"] True show ?thesis by auto
  next
    case False
    with Cons.prems have "d \<in> set ds" by simp
    then show ?thesis using Cons.IH by simp
  qed
qed

lemma fold_remove_keeps:
  "q \<in> disk w \<Longrightarrow> \<forall>d\<in>set ds. \<not> within d q \<Longrightarrow> q \<in> disk (fold remove_if_exists ds w)"
  by (induction ds arbitrary: w) (simp_all add: remove_if_exists_keeps)

lemma fold_remove_invocations: "invocations (fold remove_if_exists ds w) = invocations w"
  by (induction ds arbitrary: w) (simp_all add: remove_if_exists_invocations)

text \<open>
  Claim C7. The first \<open>destroy\<close> of a session empties the tracked set, leaves none of the
  tracked build directories on disk (one that is missing already is skipped), and leaves the
  session directory on disk only if \<open>persist\<close> was set; it removes paths only and calls no
  external process. It has no error to raise. Every later call returns at once and changes
  neither the session nor the disk, so the state after the second call is the state after
  the first.
\<close>

theorem destroy_idempotent_and_drains:
  assumes alive: "\<not> destroyed s"
  shows "buildDirs (fst (destroy s w)) = []
       \<and> (\<forall>d\<in>set (buildDirs s). d \<notin> disk (snd (destroy s w)))
       \<and> (\<not> persist s \<longrightarrow> sessionPath s \<notin> disk (snd (destroy s w)))
       \<and> (persist s \<longrightarrow> sessionPath s \<in> disk w \<longrightarrow> (\<forall>d\<in>set (buildDirs s). \<not> within d (sessionPath s))
            \<longrightarrow> sessionPath s \<in> disk (snd (destroy s w)))
       \<and> disk (snd (destroy s w)) \<subseteq> disk w
       \<and> invocations (snd (destroy s w)) = invocations w
       \<and> destroy (fst (destroy s w)) (snd (destroy s w)) = destroy s w
       \<and> (\<forall>w'. destroy (fst (destroy s w)) w' = (fst (destroy s w), w'))"
proof -
  let ?w1 = "fold remove_if_exists (buildDirs s) w"
  have a: "buildDirs (fst (destroy s w)) = []"
    using alive by (simp add: destroy_def Let_def)
  have sub: "disk (snd (destroy s w)) \<subseteq> disk ?w1"
    using alive rmSync_subset [of "sessionPath s" ?w1] by (auto simp: destroy_def Let_def)
  have b: "\<forall>d\<in>set (buildDirs s). d \<notin> disk (snd (destroy s w))"
    using sub fold_remove_gone [of _ "buildDirs s" w] by blast
  have c: "\<not> persist s \<longrightarrow> sessionPath s \<notin> disk (snd (destroy s w))"
    using alive by (simp add: destroy_def Let_def existsSync_def rmSync_gone)
  have c': "persist s \<longrightarrow> sessionPath s \<in> disk w
            \<longrightarrow> (\<forall>d\<in>set (buildDirs s). \<not> within d (sessionPath s))
            \<longrightarrow> sessionPath s \<in> disk (snd (destroy s w))"
    using alive by (simp add: destroy_def Let_def fold_remove_keeps)
  have d: "disk (snd (destroy s w)) \<subseteq> disk w"
    using sub fold_remove_subset [of "buildDirs s" w] by blast
  have e: "invocations (snd (destroy s w)) = invocations w"
    using alive by (simp add: destroy_def Let_def rmSync_other fold_remove_invocations)
  have f: "\<forall>w'. destroy (fst (destroy s w)) w' = (fst (destroy s w), w')"
    by (simp add: destroy_def Let_def)
  have g: "destroy (fst (destroy s w)) (snd (destroy s w)) = destroy s w"
    using f by simp
  from a b c c' d e f g show ?thesis by blast
qed

theorem destroy_idempotent_and_drains_witness:
  "\<not> destroyed demo_session
   \<and> buildDirs (fst (destroy demo_session demo_world)) = []
   \<and> ''/pkg/build'' \<notin> disk (snd (destroy demo_session demo_world))
   \<and> ''/tmp/s'' \<notin> disk (snd (destroy demo_session demo_world))
   \<and> ''/pkg'' \<in> disk (snd (destroy demo_session demo_world))
   \<and> destroy (fst (destroy demo_session demo_world)) (snd (destroy demo_session demo_world))
       = destroy demo_session demo_world"
proof -
  have alive: "\<not> destroyed demo_session" by (simp add: demo_session_def)
  have keep: "''/pkg'' \<in> disk (snd (destroy demo_session demo_world))"
    by (simp add: destroy_def Let_def demo_session_def demo_world_def remove_if_exists_def
        existsSync_def rmSync_def within_def)
  show ?thesis
    using alive keep destroy_idempotent_and_drains [OF alive, of demo_world]
    by (simp add: demo_session_def)
qed

subsection \<open>Failure paths of compile and publish\<close>

lemma executeAptosCli_error:
  "executeAptosCli P b a opts w = (Inl err, w1) \<Longrightarrow> \<exists>c x e out. err = CliExecutionError c x e out"
  by (auto simp: executeAptosCli_def Let_def split: prod.splits if_splits)

lemma cleanBuildDir_gone:
  "resolved_buildDir P pkg out \<notin> disk (snd (cleanBuildDir P pkg out s w))
   \<and> resolved_buildDir P pkg out \<notin> set (buildDirs (fst (cleanBuildDir P pkg out s w)))"
  by (simp add: cleanBuildDir_def Let_def existsSync_def rmSync_gone Set_delete_def)

lemma compile_catch_gone:
  "resolved_buildDir P (CompileOptions.packageDir options) (CompileOptions.outputDir options)
     \<notin> disk (snd (snd (compile_catch P options err s w)))
   \<and> resolved_buildDir P (CompileOptions.packageDir options) (CompileOptions.outputDir options)
     \<notin> set (buildDirs (fst (snd (compile_catch P options err s w))))"
  using cleanBuildDir_gone [of P "CompileOptions.packageDir options" "CompileOptions.outputDir options" s w]
  by (simp add: compile_catch_def split: prod.splits)

lemma compile_catch_error:
  "fst (compile_catch P options (CliExecutionError c x e out) s w)
     = Inl (if e \<noteq> [] then CompilationError (''Move compilation failed for '' @ CompileOptions.packageDir options) e
            else CliExecutionError c x e out)"
  by (simp add: compile_catch_def or_undefined_def split: prod.splits)

lemma compile_failure_cases:
  assumes "\<not> destroyed s" and "fst (compile P options s w) = Inl e"
  shows "\<exists>err s1 w1. compile P options s w = compile_catch P options err s1 w1"
  using assms
  by (auto simp: compile_def Let_def split: prod.splits sum.splits option.splits)

text \<open>
  In \<^verbatim>\<open>dist/core/session.js\<close>: when the process started by \<open>compile\<close> fails, the build
  directory of the package (the resolved \<open>outputDir\<close> if one was given, else
  \<^verbatim>\<open><packageDir>/build\<close>) is not on disk and not tracked when the error is raised; the error is
  a \<open>CompilationError\<close> with the \<^verbatim>\<open>stderr\<close> of the execution error when that is not empty, and
  the execution error itself otherwise. The directory is gone whatever made \<open>compile\<close> fail.
\<close>

lemma compile_failure_removes_build_dir:
  assumes alive: "\<not> destroyed s"
      and fails: "exec P s (compile_args P options) (Some (CompileOptions.packageDir options)) w
                    = (Inl (CliExecutionError c x diag out), w1)"
  shows "resolved_buildDir P (CompileOptions.packageDir options) (CompileOptions.outputDir options)
           \<notin> disk (snd (snd (compile P options s w)))
       \<and> resolved_buildDir P (CompileOptions.packageDir options) (CompileOptions.outputDir options)
           \<notin> set (buildDirs (fst (snd (compile P options s w))))
       \<and> (diag \<noteq> [] \<longrightarrow> fst (compile P options s w)
             = Inl (CompilationError (''Move compilation failed for '' @ CompileOptions.packageDir options) diag))
       \<and> (diag = [] \<longrightarrow> fst (compile P options s w) = Inl (CliExecutionError c x diag out))"
proof -
  have eq: "compile P options s w = compile_catch P options (CliExecutionError c x diag out) s w1"
    using alive fails by (simp add: compile_def)
  show ?thesis
    unfolding eq
    using compile_catch_gone [of P options "CliExecutionError c x diag out" s w1]
    by (simp add: compile_catch_error)
qed

lemma compile_any_failure_removes_build_dir:
  assumes alive: "\<not> destroyed s" and fails: "fst (compile P options s w) = Inl e"
  shows "resolved_buildDir P (CompileOptions.packageDir options) (CompileOptions.outputDir options)
           \<notin> disk (snd (snd (compile P options s w)))"
proof -
  obtain err s1 w1 where "compile P options s w = compile_catch P options err s1 w1"
    using compile_failure_cases [OF alive fails] by blast
  then show ?thesis using compile_catch_gone [of P options err s1 w1] by simp
qed

text \<open>
  In \<^verbatim>\<open>src/core/session.ts\<close>: when the process started by \<open>compile\<close> fails, the same error is
  raised, and the session and the world are those the process left: nothing is removed
  from the disk and nothing is untracked.
\<close>

lemma compile_ts_failure_removes_nothing:
  assumes alive: "\<not> destroyed s"
      and fails: "exec P s (compile_args P options) (Some (CompileOptions.packageDir options)) w
                    = (Inl (CliExecutionError c x diag out), w1)"
  shows "compile_ts P options s w
           = (Inl (if diag \<noteq> []
                   then CompilationError
                          (''Move compilation failed for '' @ CompileOptions.packageDir options) diag
                   else CliExecutionError c x diag out),
              s, w1)"
  using alive fails by (simp add: compile_ts_def compile_catch_ts_def or_undefined_def)

lemma demo_exec_fails:
  "exec (demo_platform (child_fails err)) demo_session argv dir demo_world
     = (Inl (CliExecutionError (''aptos '' @ join_with '' '' argv) 1 err []),
        demo_world\<lparr>invocations := [(''aptos'', argv, \<lparr>timeout = 120000, cwd = dir, allowFailure = False\<rparr>)]\<rparr>)"
  by (simp add: exec_def executeAptosCli_def demo_platform_def child_fails_def demo_session_def
      demo_world_def Let_def)

lemma demo_compile_fails:
  "\<not> destroyed demo_session
   \<and> ''/pkg/build'' \<in> disk demo_world
   \<and> ''/pkg/build'' \<notin> disk (snd (snd (compile (demo_platform (child_fails ''error[E01]'')) demo_compile demo_session demo_world)))
   \<and> ''/pkg/build'' \<notin> set (buildDirs (fst (snd (compile (demo_platform (child_fails ''error[E01]'')) demo_compile demo_session demo_world))))
   \<and> fst (compile (demo_platform (child_fails ''error[E01]'')) demo_compile demo_session demo_world)
       = Inl (CompilationError ''Move compilation failed for /pkg'' ''error[E01]'')"
proof -
  have alive: "\<not> destroyed demo_session" by (simp add: demo_session_def)
  have dir: "resolved_buildDir (demo_platform (child_fails ''error[E01]'')) ''/pkg'' None = ''/pkg/build''"
    by (simp add: resolved_buildDir_def demo_platform_def)
  have pkg: "CompileOptions.packageDir demo_compile = ''/pkg''"
    and out: "CompileOptions.outputDir demo_compile = None"
    by (simp_all add: demo_compile_def)
  have disk: "''/pkg/build'' \<in> disk demo_world" by (simp add: demo_world_def)
  show ?thesis
    using alive disk compile_failure_removes_build_dir [OF alive demo_exec_fails, of "''error[E01]''" demo_compile]
    by (simp add: dir pkg out)
qed

text \<open>
  Claim C2. Whenever \<open>compile\<close> fails because the process fails, the build directory of the
  package is removed from disk before the error is raised, and the error is a
  \<open>CompilationError\<close> with the \<^verbatim>\<open>stderr\<close> of the execution error when that is not empty.

  \<^verbatim>\<open>dist/core/session.js\<close> does so (\<open>compile_failure_removes_build_dir\<close>);
  \<^verbatim>\<open>src/core/session.ts\<close> raises the same error and removes nothing. The input: a live session
  that tracks \<^verbatim>\<open>/pkg/build\<close>, which is on disk, the package \<^verbatim>\<open>/pkg\<close> with no \<open>outputDir\<close>, and a
  process that exits with code 1 and the diagnostics \<^verbatim>\<open>error[E01]\<close>. Both revisions raise the
  \<open>CompilationError\<close> with these diagnostics. After \<open>compile\<close> of \<^verbatim>\<open>src/core/session.ts\<close> the
  directory is still on disk and still tracked; after \<open>compile\<close> of
  \<^verbatim>\<open>dist/core/session.js\<close> it is neither.
\<close>

theorem compile_ts_failure_leaves_build_dir:
  "\<not> destroyed demo_session
   \<and> ''/pkg/build'' \<in> disk demo_world
   \<and> ''/pkg/build'' \<in> set (buildDirs demo_session)
   \<and> fst (exec (demo_platform (child_fails ''error[E01]'')) demo_session
             (compile_args (demo_platform (child_fails ''error[E01]'')) demo_compile)
             (Some ''/pkg'') demo_world)
       = Inl (CliExecutionError ''aptos move compile --save-metadata --package-dir /pkg'' 1
                ''error[E01]'' [])
   \<and> fst (compile_ts (demo_platform (child_fails ''error[E01]'')) demo_compile demo_session demo_world)
       = Inl (CompilationError ''Move compilation failed for /pkg'' ''error[E01]'')
   \<and> ''/pkg/build'' \<in> disk (snd (snd (compile_ts (demo_platform (child_fails ''error[E01]'')) demo_compile demo_session demo_world)))
   \<and> ''/pkg/build'' \<in> set (buildDirs (fst (snd (compile_ts (demo_platform (child_fails ''error[E01]'')) demo_compile demo_session demo_world))))
   \<and> fst (compile (demo_platform (child_fails ''error[E01]'')) demo_compile demo_session demo_world)
       = Inl (CompilationError ''Move compilation failed for /pkg'' ''error[E01]'')
   \<and> ''/pkg/build'' \<notin> disk (snd (snd (compile (demo_platform (child_fails ''error[E01]'')) demo_compile demo_session demo_world)))
   \<and> ''/pkg/build'' \<notin> set (buildDirs (fst (snd (compile (demo_platform (child_fails ''error[E01]'')) demo_compile demo_session demo_world))))"
proof -
  let ?P = "demo_platform (child_fails ''error[E01]'')"
  have alive: "\<not> destroyed demo_session" by (simp add: demo_session_def)
  have pkg: "CompileOptions.packageDir demo_compile = ''/pkg''"
    by (simp add: demo_compile_def)
  have d: "''/pkg/build'' \<in> disk demo_world" "''/pkg/build'' \<in> set (buildDirs demo_session)"
    by (simp_all add: demo_world_def demo_session_def)
  have cmd: "''aptos '' @ join_with '' '' (compile_args ?P demo_compile)
               = ''aptos move compile --save-metadata --package-dir /pkg''"
    by (simp add: compile_args_def demo_compile_def demo_platform_def named_addresses_args_def
        join_with_def)
  have e: "exec ?P demo_session (compile_args ?P demo_compile) (Some ''/pkg'') demo_world
             = (Inl (CliExecutionError ''aptos move compile --save-metadata --package-dir /pkg'' 1
                       ''error[E01]'' []),
                demo_world\<lparr>invocations := [(''aptos'', compile_args ?P demo_compile,
                  \<lparr>timeout = 120000, cwd = Some ''/pkg'', allowFailure = False\<rparr>)]\<rparr>)"
    using demo_exec_fails [of "''error[E01]''" "compile_args ?P demo_compile" "Some ''/pkg''"]
    by (simp only: cmd)
  have ts: "compile_ts ?P demo_compile demo_session demo_world
              = (Inl (CompilationError ''Move compilation failed for /pkg'' ''error[E01]''),
                 demo_session,
                 demo_world\<lparr>invocations := [(''aptos'', compile_args ?P demo_compile,
                   \<lparr>timeout = 120000, cwd = Some ''/pkg'', allowFailure = False\<rparr>)]\<rparr>)"
    using compile_ts_failure_removes_nothing [OF alive, of ?P demo_compile demo_world] e
    by (simp add: pkg)
  show ?thesis
    using alive d e demo_compile_fails by (simp add: ts)
qed

text \<open>
  In \<^verbatim>\<open>dist/core/session.js\<close>: when the process started by \<open>publish\<close> fails, \<open>publish\<close> raises
  that error and the build directory \<^verbatim>\<open><packageDir>/build\<close> is neither on disk nor tracked
  afterwards.
\<close>

lemma publish_failure_removes_build_dir:
  assumes alive: "\<not> destroyed s"
      and fails: "exec P s (publish_args P s options) (Some (PublishOptions.packageDir options)) w
                    = (Inl err, w1)"
  shows "fst (publish P options s w) = Inl err
       \<and> resolved_buildDir P (PublishOptions.packageDir options) None
            \<notin> disk (snd (snd (publish P options s w)))
       \<and> resolved_buildDir P (PublishOptions.packageDir options) None
            \<notin> set (buildDirs (fst (snd (publish P options s w))))"
proof -
  have eq: "publish P options s w
              = (Inl err, cleanBuildDir P (PublishOptions.packageDir options) None s w1)"
    using alive fails by (simp add: publish_def split: prod.splits)
  show ?thesis
    using cleanBuildDir_gone [of P "PublishOptions.packageDir options" None s w1] by (simp add: eq)
qed

text \<open>
  In \<^verbatim>\<open>src/core/session.ts\<close>: when the process fails, \<open>publish\<close> raises that error, and the
  session and the world are those the process left.
\<close>

lemma publish_ts_failure_removes_nothing:
  assumes alive: "\<not> destroyed s"
      and fails: "exec P s (publish_args P s options) (Some (PublishOptions.packageDir options)) w
                    = (Inl err, w1)"
  shows "publish_ts P options s w = (Inl err, s, w1)"
  using alive fails by (simp add: publish_ts_def)

text \<open>
  In both: when the process returns, \<open>publish\<close> leaves the session (so the tracked set) and
  the world (so the disk) as the process left them, whether it returns a result or the
  logger throws; and it returns a result when the logger is disabled.
\<close>

lemma publish_returned_removes_nothing: "snd (publish_returned P result s w) = (s, w)"
  by (simp add: publish_returned_def split: option.splits)

lemma publish_success_removes_nothing:
  assumes alive: "\<not> destroyed s"
      and returns: "exec P s (publish_args P s options) (Some (PublishOptions.packageDir options)) w
                      = (Inr result, w1)"
  shows "snd (publish P options s w) = (s, w1) \<and> snd (publish_ts P options s w) = (s, w1)
       \<and> publish_ts P options s w = publish P options s w
       \<and> (\<not> log_enabled s
            \<longrightarrow> publish P options s w = (Inr (publish_result P (stdout result)), s, w1))"
  using alive returns
  by (simp add: publish_def publish_ts_def publish_returned_removes_nothing)
     (simp add: publish_returned_def publish_log_def log_detail_def split: option.splits)

lemma demo_exec_ok:
  "exec (demo_platform (child_ok out)) demo_session argv dir demo_world
     = (Inr \<lparr>stdout = out, stderr = [], exitCode = 0\<rparr>,
        demo_world\<lparr>invocations := [(''aptos'', argv, \<lparr>timeout = 120000, cwd = dir, allowFailure = False\<rparr>)]\<rparr>)"
  by (simp add: exec_def executeAptosCli_def demo_platform_def child_ok_def demo_session_def
      demo_world_def Let_def)

text \<open>
  Claim C3. \<open>publish\<close> never removes the build directory of the package on success (it stays
  on disk and tracked), and removes it whenever the process fails.

  The first half holds of both revisions (\<open>publish_success_removes_nothing\<close>). The second
  holds of \<^verbatim>\<open>dist/core/session.js\<close> (\<open>publish_failure_removes_build_dir\<close>) and not of
  \<^verbatim>\<open>src/core/session.ts\<close>, which throws the error again and removes nothing. The input: a
  live session that tracks \<^verbatim>\<open>/pkg/build\<close>, which is on disk, the package \<^verbatim>\<open>/pkg\<close>, and a process
  that exits with code 1 and \<^verbatim>\<open>boom\<close> on \<^verbatim>\<open>stderr\<close>. Both revisions raise the execution error.
  After \<open>publish\<close> of \<^verbatim>\<open>src/core/session.ts\<close> the directory is still on disk and still
  tracked; after \<open>publish\<close> of \<^verbatim>\<open>dist/core/session.js\<close> it is neither. With a process that
  exits zero and prints \<^verbatim>\<open>{}\<close>, both revisions leave the directory on disk and tracked.
\<close>

theorem publish_ts_failure_leaves_build_dir:
  "\<not> destroyed demo_session
   \<and> ''/pkg/build'' \<in> disk demo_world
   \<and> ''/pkg/build'' \<in> set (buildDirs demo_session)
   \<and> fst (exec (demo_platform (child_fails ''boom'')) demo_session
             (publish_args (demo_platform (child_fails ''boom'')) demo_session demo_publish)
             (Some ''/pkg'') demo_world)
       = Inl (CliExecutionError
                ''aptos move publish --session /tmp/s --package-dir /pkg --sender-account 0xa0 --private-key 0xb0 --assume-yes''
                1 ''boom'' [])
   \<and> fst (publish_ts (demo_platform (child_fails ''boom'')) demo_publish demo_session demo_world)
       = Inl (CliExecutionError
                ''aptos move publish --session /tmp/s --package-dir /pkg --sender-account 0xa0 --private-key 0xb0 --assume-yes''
                1 ''boom'' [])
   \<and> ''/pkg/build'' \<in> disk (snd (snd (publish_ts (demo_platform (child_fails ''boom'')) demo_publish demo_session demo_world)))
   \<and> ''/pkg/build'' \<in> set (buildDirs (fst (snd (publish_ts (demo_platform (child_fails ''boom'')) demo_publish demo_session demo_world))))
   \<and> fst (publish (demo_platform (child_fails ''boom'')) demo_publish demo_session demo_world)
       = fst (publish_ts (demo_platform (child_fails ''boom'')) demo_publish demo_session demo_world)
   \<and> ''/pkg/build'' \<notin> disk (snd (snd (publish (demo_platform (child_fails ''boom'')) demo_publish demo_session demo_world)))
   \<and> ''/pkg/build'' \<notin> set (buildDirs (fst (snd (publish (demo_platform (child_fails ''boom'')) demo_publish demo_session demo_world))))
   \<and> ''/pkg/build'' \<in> disk (snd (snd (publish_ts (demo_platform (child_ok ''{}'')) demo_publish demo_session demo_world)))
   \<and> ''/pkg/build'' \<in> set (buildDirs (fst (snd (publish_ts (demo_platform (child_ok ''{}'')) demo_publish demo_session demo_world))))
   \<and> ''/pkg/build'' \<in> disk (snd (snd (publish (demo_platform (child_ok ''{}'')) demo_publish demo_session demo_world)))
   \<and> ''/pkg/build'' \<in> set (buildDirs (fst (snd (publish (demo_platform (child_ok ''{}'')) demo_publish demo_session demo_world))))"
proof -
  let ?F = "demo_platform (child_fails ''boom'')"
  let ?K = "demo_platform (child_ok ''{}'')"
  have alive: "\<not> destroyed demo_session" by (simp add: demo_session_def)
  have pkg: "PublishOptions.packageDir demo_publish = ''/pkg''" by (simp add: demo_publish_def)
  have dir: "\<And>c. resolved_buildDir (demo_platform c) ''/pkg'' None = ''/pkg/build''"
    by (simp add: resolved_buildDir_def demo_platform_def)
  have d: "''/pkg/build'' \<in> disk demo_world" "''/pkg/build'' \<in> set (buildDirs demo_session)"
    by (simp_all add: demo_world_def demo_session_def)
  have cmd: "''aptos '' @ join_with '' '' (publish_args ?F demo_session demo_publish)
               = ''aptos move publish --session /tmp/s --package-dir /pkg --sender-account 0xa0 --private-key 0xb0 --assume-yes''"
    by (simp add: publish_args_def demo_publish_def demo_session_def demo_platform_def
        named_addresses_args_def join_with_def)
  note f = demo_exec_fails [of "''boom''" "publish_args ?F demo_session demo_publish" "Some ''/pkg''",
                            unfolded cmd]
  note k = demo_exec_ok [of "''{}''" "publish_args ?K demo_session demo_publish" "Some ''/pkg''"]
  have ts: "publish_ts ?F demo_publish demo_session demo_world
              = (Inl (CliExecutionError
                        ''aptos move publish --session /tmp/s --package-dir /pkg --sender-account 0xa0 --private-key 0xb0 --assume-yes''
                        1 ''boom'' []),
                 demo_session,
                 demo_world\<lparr>invocations := [(''aptos'', publish_args ?F demo_session demo_publish,
                   \<lparr>timeout = 120000, cwd = Some ''/pkg'', allowFailure = False\<rparr>)]\<rparr>)"
    using publish_ts_failure_removes_nothing [OF alive, of ?F demo_publish demo_world] f
    by (simp add: pkg)
  have js: "fst (publish ?F demo_publish demo_session demo_world)
              = Inl (CliExecutionError
                       ''aptos move publish --session /tmp/s --package-dir /pkg --sender-account 0xa0 --private-key 0xb0 --assume-yes''
                       1 ''boom'' [])
            \<and> ''/pkg/build'' \<notin> disk (snd (snd (publish ?F demo_publish demo_session demo_world)))
            \<and> ''/pkg/build'' \<notin> set (buildDirs (fst (snd (publish ?F demo_publish demo_session demo_world))))"
    using publish_failure_removes_build_dir [OF alive, of ?F demo_publish demo_world] f
    by (simp add: pkg dir)
  have ok: "snd (publish ?K demo_publish demo_session demo_world)
              = (demo_session,
                 demo_world\<lparr>invocations := [(''aptos'', publish_args ?K demo_session demo_publish,
                   \<lparr>timeout = 120000, cwd = Some ''/pkg'', allowFailure = False\<rparr>)]\<rparr>)
            \<and> snd (publish_ts ?K demo_publish demo_session demo_world)
              = (demo_session,
                 demo_world\<lparr>invocations := [(''aptos'', publish_args ?K demo_session demo_publish,
                   \<lparr>timeout = 120000, cwd = Some ''/pkg'', allowFailure = False\<rparr>)]\<rparr>)"
    using publish_success_removes_nothing [OF alive, of ?K demo_publish demo_world] k
    by (simp add: pkg)
  show ?thesis
    using alive d f js by (simp add: ts ok)
qed

text \<open>
  Claim C5. If the process started by \<open>publish\<close> exits zero and its \<^verbatim>\<open>stdout\<close> cannot be parsed,
  \<open>publish\<close> returns a result with \<open>success\<close> true, \<open>transactionHash\<close> and \<open>gasUsed\<close> absent
  and the raw \<^verbatim>\<open>stdout\<close> attached.
\<close>

theorem publish_unparseable_output_is_success:
  assumes alive: "\<not> destroyed s"
      and run: "execFile P (aptosBin s) (publish_args P s options)
                  \<lparr>timeout = commandTimeout s, cwd = Some (PublishOptions.packageDir options),
                   allowFailure = False\<rparr> w = (out, d)"
      and zero: "child_error out = None"
      and unparseable: "parseJsonOutput P (child_stdout out) = Inl e"
  shows "fst (publish P options s w)
           = Inr \<lparr>PublishResult.success = True, transactionHash = None, gasUsed = None,
                  raw = child_stdout out\<rparr>"
  using assms
  by (simp add: publish_def exec_def executeAptosCli_def Let_def publish_returned_def
      publish_result_def publish_vmStatus_def publish_log_def)

lemma ecma_reject_Published: "ecma_JSON_parse ''Published.'' = None"
  by (simp add: ecma_JSON_parse_def step_token_def isJsonSpace_def value_allowed_def
      key_allowed_def isDigit_def)

lemma parse_Published:
  "parseJsonOutput (demo_platform c) ''Published.''
     = Inl (CliParseError ''Failed to parse JSON from CLI output'' ''Published.'')"
  by (simp add: parseJsonOutput_def demo_platform_def ecma_reject_Published trim_def
      isWhiteSpace_def indexOf_def Let_def)

theorem publish_unparseable_output_is_success_witness:
  "\<not> destroyed demo_session
   \<and> parseJsonOutput (demo_platform (child_ok ''Published.'')) ''Published.''
       = Inl (CliParseError ''Failed to parse JSON from CLI output'' ''Published.'')
   \<and> fst (publish (demo_platform (child_ok ''Published.'')) demo_publish demo_session demo_world)
       = Inr \<lparr>PublishResult.success = True, transactionHash = None, gasUsed = None,
              raw = ''Published.''\<rparr>"
proof -
  have alive: "\<not> destroyed demo_session" by (simp add: demo_session_def)
  have run: "execFile (demo_platform (child_ok ''Published.'')) (aptosBin demo_session)
               (publish_args (demo_platform (child_ok ''Published.'')) demo_session demo_publish)
               \<lparr>timeout = commandTimeout demo_session,
                cwd = Some (PublishOptions.packageDir demo_publish), allowFailure = False\<rparr>
               demo_world
             = (\<lparr>child_error = None, child_stdout = ''Published.'', child_stderr = []\<rparr>, disk demo_world)"
    by (simp add: demo_platform_def child_ok_def)
  show ?thesis
    using alive parse_Published [of "child_ok ''Published.''"]
      publish_unparseable_output_is_success [OF alive run _ _, of "CliParseError ''Failed to parse JSON from CLI output'' ''Published.''"]
    by simp
qed


lemma parseJsonOutput_error:
  "parseJsonOutput P out = Inl e
     \<Longrightarrow> e = CliParseError ''Failed to parse JSON from CLI output'' (trim out)"
  by (auto simp: parseJsonOutput_def Let_def split: option.splits)

lemma extractResult_error:
  "parseJsonOutput P out = Inl e \<Longrightarrow> extractResult P out = Inl e"
  by (simp add: extractResult_def)

lemma parseRunResult_error:
  "parseJsonOutput P out = Inl e
     \<Longrightarrow> parseRunResult P out err
           = \<lparr>RunResult.success = JBool False, vmStatus = None, gasUsed = None, events = None,
              changes = None, raw = out, stderr = or_undefined (Some err)\<rparr>"
  by (simp add: parseRunResult_def)

lemma interpret_run_error:
  "parseJsonOutput P (stdout result) = Inl e
     \<Longrightarrow> interpret_run P result s w
           = (Inr \<lparr>RunResult.success = JBool False, vmStatus = None, gasUsed = None,
                   events = None, changes = None, raw = stdout result,
                   stderr = or_undefined (Some (ExecResult.stderr result))\<rparr>, s, w)"
  by (simp add: interpret_run_def parseRunResult_error parseVmStatus_def Let_def)

text \<open>
  Claim C4, amended. When the process exits zero and \<^verbatim>\<open>stdout\<close> is not recoverable JSON,
  \<open>view\<close> and \<open>viewResource\<close> raise the \<open>CliParseError\<close>; \<open>run\<close> and \<open>runScript\<close> return a
  result with \<open>success\<close> false and the structured fields absent; \<open>publish\<close> returns a result
  with the structured fields absent whose \<open>success\<close> is true. None of the three write
  operations throws.
\<close>

theorem unparseable_output_read_raises_write_returns:
  assumes alive: "\<not> destroyed s"
      and unparseable: "parseJsonOutput P (stdout result) = Inl e"
  shows "e = CliParseError ''Failed to parse JSON from CLI output'' (trim (stdout result))
       \<and> (exec P s (view_args s vo) None w = (Inr result, w1)
            \<longrightarrow> view P vo s w = (Inl e, s, w1))
       \<and> (exec P s (viewResource_args s vro) None w = (Inr result, w1)
            \<longrightarrow> viewResource P vro s w = (Inl e, s, w1))
       \<and> (exec P s (run_args s ro) None w = (Inr result, w1)
            \<longrightarrow> run P ro s w
                = (Inr \<lparr>RunResult.success = JBool False, vmStatus = None, gasUsed = None,
                        events = None, changes = None, raw = stdout result,
                        stderr = or_undefined (Some (ExecResult.stderr result))\<rparr>, s, w1))
       \<and> (exec P s (runScript_args P s so) None w = (Inr result, w1)
            \<longrightarrow> runScript P so s w
                = (Inr \<lparr>RunResult.success = JBool False, vmStatus = None, gasUsed = None,
                        events = None, changes = None, raw = stdout result,
                        stderr = or_undefined (Some (ExecResult.stderr result))\<rparr>, s, w1))
       \<and> (exec P s (publish_args P s po) (Some (PublishOptions.packageDir po)) w = (Inr result, w1)
            \<longrightarrow> publish P po s w
                = (Inr \<lparr>PublishResult.success = True, transactionHash = None, gasUsed = None,
                        raw = stdout result\<rparr>, s, w1))"
  using alive unparseable parseJsonOutput_error [OF unparseable]
  by (simp add: view_def viewResource_def run_def runScript_def publish_def publish_returned_def
      publish_result_def publish_vmStatus_def publish_log_def extractResult_error
      interpret_run_error)

theorem unparseable_output_read_raises_write_returns_witness:
  "\<not> destroyed demo_session
   \<and> fst (view (demo_platform (child_ok ''Published.'')) demo_view demo_session demo_world)
       = Inl (CliParseError ''Failed to parse JSON from CLI output'' ''Published.'')
   \<and> fst (run (demo_platform (child_ok ''Published.'')) demo_run demo_session demo_world)
       = Inr \<lparr>RunResult.success = JBool False, vmStatus = None, gasUsed = None, events = None,
              changes = None, raw = ''Published.'', stderr = None\<rparr>"
proof -
  have alive: "\<not> destroyed demo_session" by (simp add: demo_session_def)
  have p: "parseJsonOutput (demo_platform (child_ok ''Published.''))
             (stdout \<lparr>stdout = ''Published.'', stderr = [], exitCode = 0\<rparr>)
           = Inl (CliParseError ''Failed to parse JSON from CLI output'' ''Published.'')"
    using parse_Published by simp
  show ?thesis
    using alive
      unparseable_output_read_raises_write_returns [OF alive p, of demo_view demo_world _ _ demo_run]
      demo_exec_ok [of "''Published.''"]
    by (simp add: or_undefined_def)
qed

text \<open>
  Claim C4 as stated fails for \<open>publish\<close>: the process exits zero, its output
  \<^verbatim>\<open>Published.\<close> is not recoverable JSON, and the result has \<open>success\<close> true.
\<close>

theorem publish_unparseable_counterexample:
  "\<not> destroyed demo_session
   \<and> exec (demo_platform (child_ok ''Published.'')) demo_session
        (publish_args (demo_platform (child_ok ''Published.'')) demo_session demo_publish)
        (Some ''/pkg'') demo_world
       = (Inr \<lparr>stdout = ''Published.'', stderr = [], exitCode = 0\<rparr>,
          demo_world\<lparr>invocations :=
            [(''aptos'',
              publish_args (demo_platform (child_ok ''Published.'')) demo_session demo_publish,
              \<lparr>timeout = 120000, cwd = Some ''/pkg'', allowFailure = False\<rparr>)]\<rparr>)
   \<and> parseJsonOutput (demo_platform (child_ok ''Published.'')) ''Published.''
       = Inl (CliParseError ''Failed to parse JSON from CLI output'' ''Published.'')
   \<and> fst (publish (demo_platform (child_ok ''Published.'')) demo_publish demo_session demo_world)
       = Inr \<lparr>PublishResult.success = True, transactionHash = None, gasUsed = None,
              raw = ''Published.''\<rparr>
   \<and> \<not> (\<exists>r. fst (publish (demo_platform (child_ok ''Published.'')) demo_publish demo_session
                  demo_world) = Inr r \<and> \<not> PublishResult.success r)"
proof -
  have alive: "\<not> destroyed demo_session" by (simp add: demo_session_def)
  have pkg: "PublishOptions.packageDir demo_publish = ''/pkg''" by (simp add: demo_publish_def)
  have r: "fst (publish (demo_platform (child_ok ''Published.'')) demo_publish demo_session demo_world)
       = Inr \<lparr>PublishResult.success = True, transactionHash = None, gasUsed = None,
              raw = ''Published.''\<rparr>"
    using alive demo_exec_ok [of "''Published.''"] parse_Published
    by (simp add: publish_def publish_returned_def publish_result_def publish_vmStatus_def
        publish_log_def pkg)
  show ?thesis
    using alive demo_exec_ok [of "''Published.''"] parse_Published r by simp
qed

subsection \<open>JSON envelope extraction\<close>

lemma indexOf_from_absent: "c \<notin> set xs \<Longrightarrow> indexOf_from xs c k = - 1"
  by (induction xs arbitrary: k) auto

lemma indexOf_from_first:
  "n < length xs \<Longrightarrow> xs ! n = c \<Longrightarrow> \<forall>j<n. xs ! j \<noteq> c \<Longrightarrow> indexOf_from xs c k = k + int n"
proof (induction xs arbitrary: n k)
  case Nil
  then show ?case by simp
next
  case (Cons x xs)
  show ?case
  proof (cases n)
    case 0
    with Cons.prems show ?thesis by simp
  next
    case (Suc m)
    with Cons.prems have "x \<noteq> c" by auto
    moreover have "indexOf_from xs c (k + 1) = (k + 1) + int m"
      using Cons.prems Suc by (intro Cons.IH) auto
    ultimately show ?thesis using Suc by simp
  qed
qed

lemma indexOf_from_present:
  "c \<in> set xs \<Longrightarrow> \<exists>n<length xs. indexOf_from xs c k = k + int n \<and> xs ! n = c"
proof (induction xs arbitrary: k)
  case Nil
  then show ?case by simp
next
  case (Cons x xs)
  show ?case
  proof (cases "x = c")
    case True
    then have "0 < length (x # xs) \<and> indexOf_from (x # xs) c k = k + int 0 \<and> (x # xs) ! 0 = c"
      by simp
    then show ?thesis by blast
  next
    case False
    with Cons.prems have "c \<in> set xs" by simp
    from Cons.IH [OF this, of "k + 1"]
    obtain n where n: "n < length xs" "indexOf_from xs c (k + 1) = k + 1 + int n" "xs ! n = c"
      by blast
    with False have "Suc n < length (x # xs) \<and> indexOf_from (x # xs) c k = k + int (Suc n)
                     \<and> (x # xs) ! Suc n = c" by simp
    then show ?thesis by blast
  qed
qed

lemma start_none:
  assumes "\<forall>j<length t. t ! j \<noteq> CHR ''{'' \<and> t ! j \<noteq> CHR ''[''"
  shows "indexOf t (CHR ''{'') = - 1 \<and> indexOf t (CHR ''['') = - 1"
proof -
  have "CHR ''{'' \<notin> set t" "CHR ''['' \<notin> set t"
    using assms by (auto simp: in_set_conv_nth)
  then show ?thesis by (simp add: indexOf_def indexOf_from_absent)
qed

lemma indexOf_other:
  assumes before: "\<forall>j<i. t ! j \<noteq> c"
  shows "indexOf t c = - 1 \<or> int i \<le> indexOf t c"
proof (cases "c \<in> set t")
  case False
  then show ?thesis by (simp add: indexOf_def indexOf_from_absent)
next
  case True
  from indexOf_from_present [OF True, of 0]
  obtain n where n: "n < length t" "indexOf t c = int n" "t ! n = c"
    by (auto simp: indexOf_def)
  have "\<not> n < i" using before n(3) by blast
  with n(2) show ?thesis by simp
qed

lemma start_first:
  assumes i: "i < length t" and at: "t ! i = CHR ''{'' \<or> t ! i = CHR ''[''"
      and before: "\<forall>j<i. t ! j \<noteq> CHR ''{'' \<and> t ! j \<noteq> CHR ''[''"
  shows "(if indexOf t (CHR ''{'') \<ge> 0 \<and> indexOf t (CHR ''['') \<ge> 0
            then min (indexOf t (CHR ''{'')) (indexOf t (CHR ''[''))
          else if indexOf t (CHR ''{'') \<ge> 0 then indexOf t (CHR ''{'')
          else if indexOf t (CHR ''['') \<ge> 0 then indexOf t (CHR ''['')
          else - 1) = int i"
proof -
  have b1: "\<forall>j<i. t ! j \<noteq> CHR ''{''" and b2: "\<forall>j<i. t ! j \<noteq> CHR ''[''"
    using before by simp_all
  have o1: "indexOf t (CHR ''{'') = - 1 \<or> int i \<le> indexOf t (CHR ''{'')"
    by (rule indexOf_other [OF b1])
  have o2: "indexOf t (CHR ''['') = - 1 \<or> int i \<le> indexOf t (CHR ''['')"
    by (rule indexOf_other [OF b2])
  from at show ?thesis
  proof
    assume "t ! i = CHR ''{''"
    then have "indexOf t (CHR ''{'') = int i"
      using indexOf_from_first [of i t "CHR ''{''" 0] i b1 by (simp add: indexOf_def)
    with o2 show ?thesis by auto
  next
    assume "t ! i = CHR ''[''"
    then have "indexOf t (CHR ''['') = int i"
      using indexOf_from_first [of i t "CHR ''[''" 0] i b2 by (simp add: indexOf_def)
    with o1 show ?thesis by auto
  qed
qed

lemma parseJsonOutput_full:
  "JSON_parse P (trim out) = Some v \<Longrightarrow> parseJsonOutput P out = Inr v"
  by (simp add: parseJsonOutput_def)

lemma parseJsonOutput_no_delimiter:
  assumes "JSON_parse P (trim out) = None"
      and "\<forall>j<length (trim out). trim out ! j \<noteq> CHR ''{'' \<and> trim out ! j \<noteq> CHR ''[''"
  shows "parseJsonOutput P out
           = Inl (CliParseError ''Failed to parse JSON from CLI output'' (trim out))"
  using assms(1) start_none [OF assms(2)] by (simp add: parseJsonOutput_def Let_def)

lemma parseJsonOutput_retry:
  assumes "JSON_parse P (trim out) = None"
      and "i < length (trim out)"
      and "trim out ! i = CHR ''{'' \<or> trim out ! i = CHR ''[''"
      and "\<forall>j<i. trim out ! j \<noteq> CHR ''{'' \<and> trim out ! j \<noteq> CHR ''[''"
  shows "parseJsonOutput P out
           = (case JSON_parse P (drop i (trim out)) of
                Some v \<Rightarrow> Inr v
              | None \<Rightarrow> Inl (CliParseError ''Failed to parse JSON from CLI output'' (trim out)))"
  using assms(1) start_first [OF assms(2,3,4)]
  by (simp add: parseJsonOutput_def slice_from_def Let_def)

lemmas ecma_simps = ecma_JSON_parse_def step_token_def isJsonSpace_def value_allowed_def
  key_allowed_def isDigit_def

lemma ecma_example_log: \<open>ecma_JSON_parse (''Compiling...'' @ [CHR 0x0A] @ ''{"Result":{"module_ids":["0x1::foo"]}}'') = None\<close>
  by (simp add: ecma_simps)

lemma ecma_example_payload: \<open>ecma_JSON_parse ''{"Result":{"module_ids":["0x1::foo"]}}''
    = Some (JObject [(''Result'', JObject [(''module_ids'', JArray [JString ''0x1::foo''])])])\<close>
  by (simp add: ecma_simps)

lemma ecma_example_error: \<open>ecma_JSON_parse ''{"Error":"boom"}'' = Some (JObject [(''Error'', JString ''boom'')])\<close>
  by (simp add: ecma_simps)

lemma example_log_parse:
  assumes "JSON_parse P = ecma_JSON_parse"
  shows \<open>parseJsonOutput P (''Compiling...'' @ [CHR 0x0A] @ ''{"Result":{"module_ids":["0x1::foo"]}}'')
    = Inr (JObject [(''Result'', JObject [(''module_ids'', JArray [JString ''0x1::foo''])])])\<close>
proof -
  have t: \<open>trim (''Compiling...'' @ [CHR 0x0A] @ ''{"Result":{"module_ids":["0x1::foo"]}}'')
           = ''Compiling...'' @ [CHR 0x0A] @ ''{"Result":{"module_ids":["0x1::foo"]}}''\<close>
    by (simp add: trim_def isWhiteSpace_def)
  have i: \<open>indexOf (''Compiling...'' @ [CHR 0x0A] @ ''{"Result":{"module_ids":["0x1::foo"]}}'') (CHR ''{'') = 13\<close>
    by (simp add: indexOf_def)
  have j: \<open>indexOf (''Compiling...'' @ [CHR 0x0A] @ ''{"Result":{"module_ids":["0x1::foo"]}}'') (CHR ''['') = 37\<close>
    by (simp add: indexOf_def)
  show ?thesis
    unfolding parseJsonOutput_def t Let_def assms i j
    using ecma_example_log ecma_example_payload by (simp add: slice_from_def)
qed

lemma example_error_parse:
  assumes "JSON_parse P = ecma_JSON_parse"
  shows \<open>parseJsonOutput P ''{"Error":"boom"}'' = Inr (JObject [(''Error'', JString ''boom'')])\<close>
proof -
  have t: \<open>trim ''{"Error":"boom"}'' = ''{"Error":"boom"}''\<close>
    by (simp add: trim_def isWhiteSpace_def)
  show ?thesis
    unfolding parseJsonOutput_def t Let_def assms using ecma_example_error by simp
qed

text \<open>
  The stages of \<open>parseJsonOutput\<close>. It first parses the whole trimmed output; on failure it
  parses again from the earliest \<^verbatim>\<open>{\<close> or \<^verbatim>\<open>[\<close> of the trimmed text; if there is none, or the
  second parse fails too, it throws \<open>CliParseError\<close> carrying the trimmed text. With the
  reference \<^verbatim>\<open>JSON.parse\<close>: for the line \<^verbatim>\<open>Compiling...\<close> followed by the object
  \<^verbatim>\<open>{"Result":{"module_ids":["0x1::foo"]}}\<close>, \<open>extractResult\<close> yields the payload whose
  \<^verbatim>\<open>module_ids\<close> is \<^verbatim>\<open>["0x1::foo"]\<close>; for \<^verbatim>\<open>{"Error":"boom"}\<close>, \<open>isErrorOutput\<close> holds and
  \<open>extractResult\<close> yields the whole object.
\<close>

lemma json_envelope_extraction:
  \<open>(\<forall>v. JSON_parse P (trim out) = Some v \<longrightarrow> parseJsonOutput P out = Inr v)
   \<and> (JSON_parse P (trim out) = None
        \<longrightarrow> (\<forall>j<length (trim out). trim out ! j \<noteq> CHR ''{'' \<and> trim out ! j \<noteq> CHR ''['')
        \<longrightarrow> parseJsonOutput P out
              = Inl (CliParseError ''Failed to parse JSON from CLI output'' (trim out)))
   \<and> (\<forall>i. JSON_parse P (trim out) = None
        \<longrightarrow> i < length (trim out)
        \<longrightarrow> trim out ! i = CHR ''{'' \<or> trim out ! i = CHR ''[''
        \<longrightarrow> (\<forall>j<i. trim out ! j \<noteq> CHR ''{'' \<and> trim out ! j \<noteq> CHR ''['')
        \<longrightarrow> parseJsonOutput P out
              = (case JSON_parse P (drop i (trim out)) of
                   Some v \<Rightarrow> Inr v
                 | None \<Rightarrow> Inl (CliParseError ''Failed to parse JSON from CLI output'' (trim out))))
   \<and> (JSON_parse P = ecma_JSON_parse
        \<longrightarrow> extractResult P (''Compiling...'' @ [CHR 0x0A] @ ''{"Result":{"module_ids":["0x1::foo"]}}'')
              = Inr (Some (JObject [(''module_ids'', JArray [JString ''0x1::foo''])]))
          \<and> isErrorOutput P ''{"Error":"boom"}''
          \<and> extractResult P ''{"Error":"boom"}''
              = Inr (Some (JObject [(''Error'', JString ''boom'')])))\<close>
proof (intro conjI allI impI)
  fix v assume "JSON_parse P (trim out) = Some v"
  then show "parseJsonOutput P out = Inr v" by (rule parseJsonOutput_full)
next
  assume "JSON_parse P (trim out) = None"
    and "\<forall>j<length (trim out). trim out ! j \<noteq> CHR ''{'' \<and> trim out ! j \<noteq> CHR ''[''"
  then show "parseJsonOutput P out
               = Inl (CliParseError ''Failed to parse JSON from CLI output'' (trim out))"
    by (rule parseJsonOutput_no_delimiter)
next
  fix i
  assume "JSON_parse P (trim out) = None" "i < length (trim out)"
    "trim out ! i = CHR ''{'' \<or> trim out ! i = CHR ''[''"
    "\<forall>j<i. trim out ! j \<noteq> CHR ''{'' \<and> trim out ! j \<noteq> CHR ''[''"
  then show "parseJsonOutput P out
               = (case JSON_parse P (drop i (trim out)) of
                    Some v \<Rightarrow> Inr v
                  | None \<Rightarrow> Inl (CliParseError ''Failed to parse JSON from CLI output'' (trim out)))"
    by (rule parseJsonOutput_retry)
next
  assume e: "JSON_parse P = ecma_JSON_parse"
  show \<open>extractResult P (''Compiling...'' @ [CHR 0x0A] @ ''{"Result":{"module_ids":["0x1::foo"]}}'')
          = Inr (Some (JObject [(''module_ids'', JArray [JString ''0x1::foo''])]))\<close>
    unfolding extractResult_def example_log_parse [OF e] by (simp add: lookup_last_def)
  show \<open>isErrorOutput P ''{"Error":"boom"}''\<close>
    unfolding isErrorOutput_def example_error_parse [OF e] by simp
  show \<open>extractResult P ''{"Error":"boom"}'' = Inr (Some (JObject [(''Error'', JString ''boom'')]))\<close>
    unfolding extractResult_def example_error_parse [OF e] by simp
qed

lemma json_envelope_extraction_example:
  \<open>JSON_parse (demo_platform (child_ok [])) = ecma_JSON_parse
   \<and> JSON_parse (demo_platform (child_ok [])) (trim ''  log [1, 2]  '') = None
   \<and> trim ''  log [1, 2]  '' ! 4 = CHR ''[''
   \<and> parseJsonOutput (demo_platform (child_ok [])) ''  log [1, 2]  ''
       = Inr (JArray [JNumber ''1'', JNumber ''2''])
   \<and> parseJsonOutput (demo_platform (child_ok [])) ''  log [1, 2  ''
       = Inl (CliParseError ''Failed to parse JSON from CLI output'' ''log [1, 2'')
   \<and> extractResult (demo_platform (child_ok []))
        (''Compiling...'' @ [CHR 0x0A] @ ''{"Result":{"module_ids":["0x1::foo"]}}'')
       = Inr (Some (JObject [(''module_ids'', JArray [JString ''0x1::foo''])]))
   \<and> isErrorOutput (demo_platform (child_ok [])) ''{"Error":"boom"}''\<close>
proof -
  let ?P = "demo_platform (child_ok [])"
  have e: "JSON_parse ?P = ecma_JSON_parse" by (simp add: demo_platform_def)
  have t1: "trim ''  log [1, 2]  '' = ''log [1, 2]''" and t2: "trim ''  log [1, 2  '' = ''log [1, 2''"
    by (simp_all add: trim_def isWhiteSpace_def)
  have n1: "ecma_JSON_parse ''log [1, 2]'' = None" and n2: "ecma_JSON_parse ''log [1, 2'' = None"
    by (simp_all add: ecma_simps)
  have a1: "ecma_JSON_parse ''[1, 2]'' = Some (JArray [JNumber ''1'', JNumber ''2''])"
    by (simp add: ecma_simps end_number_def number_ends_def isExp_def)
  have a2: "ecma_JSON_parse ''[1, 2'' = None"
    by (simp add: ecma_simps end_number_def number_ends_def isExp_def)
  have b: "\<forall>j<4. ''log [1, 2]'' ! j \<noteq> CHR ''{'' \<and> ''log [1, 2]'' ! j \<noteq> CHR ''[''"
    "\<forall>j<4. ''log [1, 2'' ! j \<noteq> CHR ''{'' \<and> ''log [1, 2'' ! j \<noteq> CHR ''[''"
    by (simp_all add: less_Suc_eq numeral_nat)
  note T1 = json_envelope_extraction [of ?P "''  log [1, 2]  ''"]
  note T2 = json_envelope_extraction [of ?P "''  log [1, 2  ''"]
  have r1: "parseJsonOutput ?P ''  log [1, 2]  '' = Inr (JArray [JNumber ''1'', JNumber ''2''])"
    using T1 [unfolded t1 e, THEN conjunct2, THEN conjunct2, THEN conjunct1, rule_format, of 4]
      n1 a1 b(1) by simp
  have r2: "parseJsonOutput ?P ''  log [1, 2  ''
              = Inl (CliParseError ''Failed to parse JSON from CLI output'' ''log [1, 2'')"
    using T2 [unfolded t2 e, THEN conjunct2, THEN conjunct2, THEN conjunct1, rule_format, of 4]
      n2 a2 b(2) by simp
  show ?thesis
    using e r1 r2 T1 n1 by (simp add: t1)
qed

lemma demo_view_not_json:
  "fst (view (demo_platform (child_ok (''not json'' @ [CHR 0x0A]))) demo_view demo_session demo_world)
     = Inl (CliParseError ''Failed to parse JSON from CLI output'' ''not json'')"
proof -
  have alive: "\<not> destroyed demo_session" by (simp add: demo_session_def)
  have t: "trim (''not json'' @ [CHR 0x0A]) = ''not json''"
    by (simp add: trim_def isWhiteSpace_def)
  have n: "ecma_JSON_parse ''not json'' = None" by (simp add: ecma_simps)
  have p: "parseJsonOutput (demo_platform (child_ok (''not json'' @ [CHR 0x0A])))
             (''not json'' @ [CHR 0x0A])
           = Inl (CliParseError ''Failed to parse JSON from CLI output'' ''not json'')"
    unfolding parseJsonOutput_def t Let_def
    using n by (simp add: demo_platform_def indexOf_def)
  show ?thesis
    using alive demo_exec_ok [of "''not json'' @ [CHR 0x0A]" _ None] p
    by (simp add: view_def extractResult_def)
qed

lemma demo_publish_not_json:
  "fst (publish (demo_platform (child_ok (''not json'' @ [CHR 0x0A]))) demo_publish demo_session demo_world)
     = Inr \<lparr>PublishResult.success = True, transactionHash = None, gasUsed = None,
            raw = ''not json'' @ [CHR 0x0A]\<rparr>"
proof -
  have alive: "\<not> destroyed demo_session" by (simp add: demo_session_def)
  have pkg: "PublishOptions.packageDir demo_publish = ''/pkg''" by (simp add: demo_publish_def)
  have t: "trim (''not json'' @ [CHR 0x0A]) = ''not json''"
    by (simp add: trim_def isWhiteSpace_def)
  have n: "ecma_JSON_parse ''not json'' = None" by (simp add: ecma_simps)
  have p: "parseJsonOutput (demo_platform (child_ok (''not json'' @ [CHR 0x0A])))
             (''not json'' @ [CHR 0x0A])
           = Inl (CliParseError ''Failed to parse JSON from CLI output'' ''not json'')"
    unfolding parseJsonOutput_def t Let_def
    using n by (simp add: demo_platform_def indexOf_def)
  show ?thesis
    using alive demo_exec_ok [of "''not json'' @ [CHR 0x0A]" _ "Some ''/pkg''"] p
    by (simp add: publish_def publish_returned_def publish_result_def publish_vmStatus_def
        publish_log_def pkg)
qed

text \<open>
  Claim C8. \<open>parseJsonOutput\<close> first parses the whole trimmed output, on failure parses again
  from the earliest \<^verbatim>\<open>{\<close> or \<^verbatim>\<open>[\<close> of the trimmed text, and if both fail throws \<open>CliParseError\<close>
  carrying the raw text; the two examples of \<open>extractResult\<close> and \<open>isErrorOutput\<close>.

  The stages and the examples are as the claim says (\<open>json_envelope_extraction\<close>). The
  error does not carry the raw text: the constructor is given the trimmed text, while the
  class documents its field \<open>rawOutput\<close> as the raw output, and the \<open>raw\<close> field of every
  result holds the \<^verbatim>\<open>stdout\<close> as the process wrote it. The input: the output \<^verbatim>\<open>not json\<close>
  followed by a line feed. The error of \<open>parseJsonOutput\<close>, and so of \<open>view\<close>, carries
  \<^verbatim>\<open>not json\<close> without the line feed; the result of \<open>publish\<close> on the same output carries it
  with the line feed.
\<close>

theorem parse_error_carries_trimmed_text:
  "parseJsonOutput (demo_platform (child_ok [])) (''not json'' @ [CHR 0x0A])
     = Inl (CliParseError ''Failed to parse JSON from CLI output'' ''not json'')
   \<and> ''not json'' \<noteq> ''not json'' @ [CHR 0x0A]
   \<and> fst (view (demo_platform (child_ok (''not json'' @ [CHR 0x0A]))) demo_view demo_session demo_world)
       = Inl (CliParseError ''Failed to parse JSON from CLI output'' ''not json'')
   \<and> fst (publish (demo_platform (child_ok (''not json'' @ [CHR 0x0A]))) demo_publish demo_session demo_world)
       = Inr \<lparr>PublishResult.success = True, transactionHash = None, gasUsed = None,
              raw = ''not json'' @ [CHR 0x0A]\<rparr>"
proof -
  have t: "trim (''not json'' @ [CHR 0x0A]) = ''not json''"
    by (simp add: trim_def isWhiteSpace_def)
  have n: "ecma_JSON_parse ''not json'' = None" by (simp add: ecma_simps)
  have p: "parseJsonOutput (demo_platform (child_ok [])) (''not json'' @ [CHR 0x0A])
             = Inl (CliParseError ''Failed to parse JSON from CLI output'' ''not json'')"
    unfolding parseJsonOutput_def t Let_def
    using n by (simp add: demo_platform_def indexOf_def)
  show ?thesis
    using p demo_view_not_json demo_publish_not_json by simp
qed

subsection \<open>Values that the logger cannot show\<close>

text \<open>
  The logger can make both methods throw. With the logger enabled, a transaction hash or a
  module id that is an object with a member \<^verbatim>\<open>toString\<close> makes \<^verbatim>\<open>log.detail\<close> throw \<open>TypeError\<close>:
  \<open>publish\<close> then raises it after the process has returned, and removes nothing; \<open>compile\<close>
  raises it from inside its \<^verbatim>\<open>try\<close> block, so that its \<^verbatim>\<open>catch\<close> branch runs. With the logger
  disabled \<open>publish\<close> returns the result.
\<close>

lemma ecma_example_tx: \<open>ecma_JSON_parse ''{"Result":{"transaction_hash":{"toString":1}}}''
   = Some (JObject [(''Result'', JObject [(''transaction_hash'', JObject [(''toString'', JNumber ''1'')])])])\<close>
  by (simp add: ecma_simps end_number_def number_ends_def isExp_def)

lemma ecma_example_ids: \<open>ecma_JSON_parse ''{"Result":{"module_ids":[{"toString":1}]}}''
   = Some (JObject [(''Result'', JObject [(''module_ids'', JArray [JObject [(''toString'', JNumber ''1'')]])])])\<close>
  by (simp add: ecma_simps end_number_def number_ends_def isExp_def)

lemma example_tx_parse:
  \<open>parseJsonOutput (demo_platform c) ''{"Result":{"transaction_hash":{"toString":1}}}''
     = Inr (JObject [(''Result'', JObject [(''transaction_hash'', JObject [(''toString'', JNumber ''1'')])])])\<close>
proof -
  have t: \<open>trim ''{"Result":{"transaction_hash":{"toString":1}}}'' = ''{"Result":{"transaction_hash":{"toString":1}}}''\<close>
    by (simp add: trim_def isWhiteSpace_def)
  show ?thesis
    unfolding parseJsonOutput_def t Let_def using ecma_example_tx by (simp add: demo_platform_def)
qed

lemma example_ids_parse:
  \<open>parseJsonOutput (demo_platform c) ''{"Result":{"module_ids":[{"toString":1}]}}''
     = Inr (JObject [(''Result'', JObject [(''module_ids'', JArray [JObject [(''toString'', JNumber ''1'')]])])])\<close>
proof -
  have t: \<open>trim ''{"Result":{"module_ids":[{"toString":1}]}}'' = ''{"Result":{"module_ids":[{"toString":1}]}}''\<close>
    by (simp add: trim_def isWhiteSpace_def)
  show ?thesis
    unfolding parseJsonOutput_def t Let_def using ecma_example_ids by (simp add: demo_platform_def)
qed

lemma demo_publish_log_throws:
  \<open>log_enabled demo_session
   \<and> fst (publish (demo_platform (child_ok ''{"Result":{"transaction_hash":{"toString":1}}}''))
            demo_publish demo_session demo_world) = Inl no_primitive
   \<and> fst (publish_ts (demo_platform (child_ok ''{"Result":{"transaction_hash":{"toString":1}}}''))
            demo_publish demo_session demo_world) = Inl no_primitive
   \<and> fst (publish (demo_platform (child_ok ''{"Result":{"transaction_hash":{"toString":1}}}''))
            demo_publish (demo_session\<lparr>log_enabled := False\<rparr>) demo_world)
       = Inr \<lparr>PublishResult.success = True,
              transactionHash = Some (JObject [(''toString'', JNumber ''1'')]),
              gasUsed = None, raw = ''{"Result":{"transaction_hash":{"toString":1}}}''\<rparr>\<close>
proof -
  let ?out = \<open>''{"Result":{"transaction_hash":{"toString":1}}}''\<close>
  let ?P = "demo_platform (child_ok ?out)"
  have pkg: "PublishOptions.packageDir demo_publish = ''/pkg''" by (simp add: demo_publish_def)
  have e: "\<And>s. exec ?P s (publish_args ?P s demo_publish) (Some ''/pkg'') demo_world
            = (Inr \<lparr>stdout = ?out, stderr = [], exitCode = 0\<rparr>,
               demo_world\<lparr>invocations := [(aptosBin s, publish_args ?P s demo_publish,
                  \<lparr>timeout = commandTimeout s, cwd = Some ''/pkg'', allowFailure = False\<rparr>)]\<rparr>)"
    by (simp add: exec_def executeAptosCli_def demo_platform_def child_ok_def demo_world_def Let_def)
  have r: "publish_result ?P ?out
             = \<lparr>PublishResult.success = True,
                transactionHash = Some (JObject [(''toString'', JNumber ''1'')]),
                gasUsed = None, raw = ?out\<rparr>"
    and v: "publish_vmStatus ?P ?out = None"
    by (simp_all add: publish_result_def publish_vmStatus_def example_tx_parse isErrorOutput_def
        gas_of_def opt_prop_def lookup_last_def Let_def)
  show ?thesis
    by (simp add: publish_def publish_ts_def pkg e publish_returned_def r v publish_log_def
        log_detail_def demo_session_def)
qed

lemma demo_compile_log_throws:
  \<open>fst (compile (demo_platform (child_ok ''{"Result":{"module_ids":[{"toString":1}]}}''))
            demo_compile demo_session demo_world) = Inl no_primitive
   \<and> ''/pkg/build'' \<notin> disk (snd (snd (compile (demo_platform (child_ok ''{"Result":{"module_ids":[{"toString":1}]}}''))
            demo_compile demo_session demo_world)))
   \<and> fst (compile_ts (demo_platform (child_ok ''{"Result":{"module_ids":[{"toString":1}]}}''))
            demo_compile demo_session demo_world) = Inl no_primitive
   \<and> ''/pkg/build'' \<in> disk (snd (snd (compile_ts (demo_platform (child_ok ''{"Result":{"module_ids":[{"toString":1}]}}''))
            demo_compile demo_session demo_world)))\<close>
proof -
  let ?out = \<open>''{"Result":{"module_ids":[{"toString":1}]}}''\<close>
  let ?P = "demo_platform (child_ok ?out)"
  have alive: "\<not> destroyed demo_session" "log_enabled demo_session" by (simp_all add: demo_session_def)
  have pkg: "CompileOptions.packageDir demo_compile = ''/pkg''"
    and out: "CompileOptions.outputDir demo_compile = None"
    by (simp_all add: demo_compile_def)
  have dir: "resolved_buildDir ?P ''/pkg'' None = ''/pkg/build''"
    by (simp add: resolved_buildDir_def demo_platform_def)
  have x: "extractResult ?P ?out
             = Inr (Some (JObject [(''module_ids'', JArray [JObject [(''toString'', JNumber ''1'')]])]))"
    by (simp add: extractResult_def example_ids_parse lookup_last_def)
  have l: "compile_log demo_session (JArray [JObject [(''toString'', JNumber ''1'')]]) = Some no_primitive"
    by (simp add: compile_log_def log_detail_def alive)
  have e: "exec ?P demo_session (compile_args ?P demo_compile) (Some ''/pkg'') demo_world
            = (Inr \<lparr>stdout = ?out, stderr = [], exitCode = 0\<rparr>,
               demo_world\<lparr>invocations := [(''aptos'', compile_args ?P demo_compile,
                  \<lparr>timeout = 120000, cwd = Some ''/pkg'', allowFailure = False\<rparr>)]\<rparr>)"
    by (rule demo_exec_ok)
  have d: "''/pkg/build'' \<in> disk demo_world" by (simp add: demo_world_def)
  have ts: "fst (compile_ts ?P demo_compile demo_session demo_world) = Inl no_primitive
            \<and> ''/pkg/build'' \<in> disk (snd (snd (compile_ts ?P demo_compile demo_session demo_world)))"
    using alive d
    by (simp add: compile_ts_def pkg out e x opt_prop_def lookup_last_def nullish_def l
        compile_catch_ts_def or_undefined_def no_primitive_def)
  have js: "fst (compile ?P demo_compile demo_session demo_world) = Inl no_primitive
            \<and> ''/pkg/build'' \<notin> disk (snd (snd (compile ?P demo_compile demo_session demo_world)))"
    using alive cleanBuildDir_gone [of ?P "''/pkg''" None]
    by (simp add: compile_def pkg out e x opt_prop_def lookup_last_def nullish_def l dir
        compile_catch_def or_undefined_def no_primitive_def split: prod.splits)
  show ?thesis using ts js by simp
qed

subsection \<open>Abort codes\<close>

lemma bit_length_le: "n < 2 ^ k \<Longrightarrow> bit_length n \<le> k"
proof (induction k arbitrary: n)
  case 0
  then have "n = 0" by simp
  then show ?case by (simp add: bit_length.simps)
next
  case (Suc k)
  show ?case
  proof (cases "n = 0")
    case True
    then show ?thesis by (simp add: bit_length.simps)
  next
    case False
    from Suc.prems have "n div 2 < 2 ^ k" by simp
    then have "bit_length (n div 2) \<le> k" by (rule Suc.IH)
    with False show ?thesis by (subst bit_length.simps) simp
  qed
qed

lemma to_double_exact: "n < 2 ^ 53 \<Longrightarrow> to_double n = Finite (int n)"
  using bit_length_le [of n 53] by (simp add: to_double_def)

lemma digits_table:
  "list_all (\<lambda>c. \<not> isWhiteSpace c \<and> isRadixDigit 10 c \<and> c \<noteq> CHR ''x'' \<and> c \<noteq> CHR ''-'' \<and> c \<noteq> CHR ''+'')
     ''0123456789''"
  by code_simp

lemma hex_digits_table: "list_all (isRadixDigit 16) ''0123456789abcdefABCDEF''"
  by code_simp

lemma digit_facts:
  assumes "isDigit c"
  shows "\<not> isWhiteSpace c" "isRadixDigit 10 c" "c \<noteq> CHR ''x''" "c \<noteq> CHR ''-''" "c \<noteq> CHR ''+''"
  using assms digits_table unfolding isDigit_def list_all_iff by blast+

lemma hexdigit_radix16: "isHexDigit c \<Longrightarrow> isRadixDigit 16 c"
  using hex_digits_table unfolding isHexDigit_def list_all_iff by blast

lemma takeWhile_all: "list_all P xs \<Longrightarrow> takeWhile P xs = xs"
  by (induction xs) auto

lemma parseInt_decimal:
  assumes ne: "s \<noteq> []" and ds: "list_all isDigit s"
  shows "parseInt s 10 = to_double (digits_value 10 s)"
proof -
  obtain c cs where s: "s = c # cs" using ne by (cases s) auto
  have c: "isDigit c" using ds s by simp
  have ws: "dropWhile isWhiteSpace s = s" using digit_facts(1) [OF c] s by simp
  have sign: "\<not> startsWith s ''-''" "\<not> startsWith s ''+''"
    using digit_facts(4,5) [OF c] s by (simp_all add: startsWith_def)
  have z: "takeWhile (isRadixDigit 10) s = s"
    by (rule takeWhile_all) (use ds in \<open>auto simp: list_all_iff digit_facts(2)\<close>)
  show ?thesis
    using ne by (simp add: parseInt_def ws sign z Let_def)
qed

lemma parseInt_hex:
  assumes ne: "hs \<noteq> []" and ds: "list_all isHexDigit hs"
  shows "parseInt (''0x'' @ hs) 16 = to_double (digits_value 16 hs)"
proof -
  have z: "takeWhile (isRadixDigit 16) hs = hs"
    by (rule takeWhile_all) (use ds in \<open>auto simp: list_all_iff hexdigit_radix16\<close>)
  show ?thesis
    using ne by (simp add: parseInt_def isWhiteSpace_def startsWith_def z Let_def)
qed

lemma decimal_not_hex_prefix: "list_all isDigit s \<Longrightarrow> \<not> startsWith s ''0x''"
proof (cases s)
  case Nil
  then show ?thesis by (simp add: startsWith_def)
next
  case (Cons a as)
  assume d: "list_all isDigit s"
  show ?thesis
  proof (cases as)
    case Nil
    with Cons show ?thesis by (simp add: startsWith_def)
  next
    case (Cons b bs)
    with d \<open>s = a # as\<close> have "isDigit b" by simp
    then have "b \<noteq> CHR ''x''" by (rule digit_facts(3))
    with Cons \<open>s = a # as\<close> show ?thesis by (simp add: startsWith_def)
  qed
qed

lemma and_255: "and (x::int) 0xFF = take_bit 8 x"
  by (simp add: take_bit_eq_mask mask_eq_exp_minus_1)

lemma and_65535: "and (x::int) 0xFFFF = take_bit 16 x"
  by (simp add: take_bit_eq_mask mask_eq_exp_minus_1)

lemma take_bit_sub_32:
  assumes "k \<le> 32"
  shows "take_bit k (a - 2 ^ 32 :: int) = take_bit k a"
proof -
  have "(2::int) ^ 32 = 2 ^ k * 2 ^ (32 - k)"
    using assms by (simp flip: power_add)
  then have "a - 2 ^ 32 = a + 2 ^ k * (- (2 ^ (32 - k)))" by simp
  then have "(a - 2 ^ 32) mod 2 ^ k = a mod 2 ^ k"
    by (simp only: mod_mult_self2)
  then show ?thesis by (simp only: take_bit_eq_mod)
qed

lemma take_bit_ToInt32:
  assumes "k \<le> 32"
  shows "take_bit k (ToInt32 (Finite n)) = take_bit k n"
proof -
  have m: "n mod 2 ^ 32 = take_bit 32 n" by (simp add: take_bit_eq_mod)
  have a: "take_bit k (take_bit 32 n) = take_bit k n" using assms by (simp add: min_def)
  show ?thesis
    unfolding ToInt32.simps m
    using a take_bit_sub_32 [OF assms, of "take_bit 32 n"] by simp
qed

lemma ToInt32_cat: "and (drop_bit 16 (ToInt32 (Finite n))) 0xFF = (n div 65536) mod 256"
proof -
  have "and (drop_bit 16 (ToInt32 (Finite n))) 0xFF = take_bit 8 (drop_bit 16 (ToInt32 (Finite n)))"
    by (rule and_255)
  also have "\<dots> = drop_bit 16 (take_bit 24 (ToInt32 (Finite n)))"
    by (simp add: take_bit_drop_bit)
  also have "\<dots> = drop_bit 16 (take_bit 24 n)"
  proof -
    have "(24::nat) \<le> 32" by simp
    then show ?thesis by (simp only: take_bit_ToInt32)
  qed
  also have "\<dots> = take_bit 8 (drop_bit 16 n)"
    by (simp add: drop_bit_take_bit)
  also have "\<dots> = (n div 65536) mod 256"
    by (simp add: take_bit_eq_mod drop_bit_eq_div)
  finally show ?thesis .
qed

lemma ToInt32_reason: "and (ToInt32 (Finite n)) 0xFFFF = n mod 65536"
proof -
  have "and (ToInt32 (Finite n)) 0xFFFF = take_bit 16 (ToInt32 (Finite n))"
    by (rule and_65535)
  also have "\<dots> = take_bit 16 n"
  proof -
    have "(16::nat) \<le> 32" by simp
    then show ?thesis by (simp only: take_bit_ToInt32)
  qed
  also have "\<dots> = n mod 65536" by (simp add: take_bit_eq_mod)
  finally show ?thesis .
qed

lemma ERROR_CATEGORIES_dom: "ERROR_CATEGORIES c \<noteq> None \<longleftrightarrow> c \<in> {1..13}"
proof -
  have "c \<in> {1..13} \<longleftrightarrow> c \<in> set [1, 2, 3, 4, 5, 6, 7, 8, 9, 10, 11, 12, 13]"
    by (simp only: atLeastAtMost_iff) (simp; arith)
  then show ?thesis by (simp add: ERROR_CATEGORIES_def)
qed

lemma ERROR_CATEGORIES_nonempty: "ERROR_CATEGORIES c = Some name \<Longrightarrow> name \<noteq> []"
  by (auto simp: ERROR_CATEGORIES_def split: if_splits)

lemma parseInt_numeral:
  assumes "decimal_numeral s \<or> hex_numeral s"
  shows "parseInt s (if startsWith s ''0x'' then 16 else 10) = to_double (numeral_value s)"
  using assms
proof
  assume d: "decimal_numeral s"
  then have "\<not> startsWith s ''0x''" by (simp add: decimal_numeral_def decimal_not_hex_prefix)
  then show ?thesis
    using d parseInt_decimal [of s] by (simp add: decimal_numeral_def numeral_value_def)
next
  assume h: "hex_numeral s"
  then have p: "startsWith s ''0x''" by (simp add: hex_numeral_def)
  then have s: "s = ''0x'' @ drop 2 s"
    by (metis append_take_drop_id length_Cons list.size(3) numeral_2_eq_2 startsWith_def)
  have "parseInt (''0x'' @ drop 2 s) 16 = to_double (digits_value 16 (drop 2 s))"
    using h by (intro parseInt_hex) (simp_all add: hex_numeral_def)
  with s p show ?thesis by (simp add: numeral_value_def)
qed


lemma decodeAbortCode_exact:
  assumes num: "decimal_numeral s \<or> hex_numeral s" and small: "numeral_value s < 2 ^ 53"
  shows "decodeAbortCode (Some s)
           = (case ERROR_CATEGORIES (category_byte (numeral_value s)) of
                None \<Rightarrow> None
              | Some name \<Rightarrow>
                  Some \<lparr>DecodedAbort.category = name, reason = low16 (numeral_value s),
                        hex = ''0x'' @ to_radix 16 (numeral_value s)\<rparr>)"
proof -
  let ?n = "numeral_value s"
  have p: "parseInt s (if startsWith s ''0x'' then 16 else 10) = Finite (int ?n)"
    using parseInt_numeral [OF num] to_double_exact [OF small] by simp
  have cat: "and (drop_bit 16 (ToInt32 (Finite (int ?n)))) 0xFF = category_byte ?n"
    unfolding ToInt32_cat by (simp add: category_byte_def zdiv_int zmod_int)
  have rsn: "and (ToInt32 (Finite (int ?n))) 0xFFFF = low16 ?n"
    unfolding ToInt32_reason by (simp add: low16_def zmod_int)
  have pos: "\<not> negative (Finite (int ?n))" by simp
  show ?thesis
  proof (cases "ERROR_CATEGORIES (category_byte ?n)")
    case None
    then show ?thesis
      by (simp add: decodeAbortCode_def p Let_def cat rsn del: ToInt32.simps)
  next
    case (Some name)
    then have "name \<noteq> []" by (rule ERROR_CATEGORIES_nonempty)
    with Some show ?thesis
      by (simp add: decodeAbortCode_def p Let_def cat rsn del: ToInt32.simps)
  qed
qed

text \<open>
  Claim C9, amended. For an abort code given as a decimal numeral or as a hexadecimal
  numeral with the prefix \<^verbatim>\<open>0x\<close>, whose value is below \<open>2\<^sup>5\<^sup>3\<close>: \<open>decodeAbortCode\<close> gives a
  category and a reason if and only if the category byte \<^verbatim>\<open>(code >> 16) & 0xFF\<close> is one of
  the thirteen entries \<^verbatim>\<open>0x1\<close> to \<^verbatim>\<open>0xD\<close> of \<open>ERROR_CATEGORIES\<close>; the category is then the
  entry of that byte and the reason is the low 16 bits of the code; otherwise it gives
  \<^verbatim>\<open>undefined\<close>, so both stay absent.
\<close>

theorem decodeAbortCode_exact_codes:
  assumes num: "decimal_numeral s \<or> hex_numeral s" and small: "numeral_value s < 2 ^ 53"
  shows "(decodeAbortCode (Some s) \<noteq> None \<longleftrightarrow> category_byte (numeral_value s) \<in> {1..13})
       \<and> (\<forall>d. decodeAbortCode (Some s) = Some d
              \<longrightarrow> ERROR_CATEGORIES (category_byte (numeral_value s)) = Some (DecodedAbort.category d)
                \<and> DecodedAbort.reason d = low16 (numeral_value s))"
  unfolding decodeAbortCode_exact [OF num small]
  using ERROR_CATEGORIES_dom [of "category_byte (numeral_value s)"]
  by (auto split: option.splits)

lemma small_65542: "decimal_numeral ''65542'' \<and> numeral_value ''65542'' = 65542"
  by (simp add: decimal_numeral_def hex_numeral_def numeral_value_def startsWith_def
      digits_value_def digit_value_def isDigit_def isHexDigit_def)

lemma small_65: "decimal_numeral ''65'' \<and> numeral_value ''65'' = 65"
  by (simp add: decimal_numeral_def hex_numeral_def numeral_value_def startsWith_def
      digits_value_def digit_value_def isDigit_def isHexDigit_def)

lemma small_hex: "hex_numeral ''0x2000a'' \<and> numeral_value ''0x2000a'' = 131082"
  by (simp add: decimal_numeral_def hex_numeral_def numeral_value_def startsWith_def
      digits_value_def digit_value_def isDigit_def isHexDigit_def)

theorem decodeAbortCode_exact_codes_witness:
  "decimal_numeral ''65542'' \<and> numeral_value ''65542'' < 2 ^ 53
   \<and> category_byte (numeral_value ''65542'') = 1
   \<and> decodeAbortCode (Some ''65542'') \<noteq> None
   \<and> hex_numeral ''0x2000a''
   \<and> category_byte (numeral_value ''0x2000a'') = 2
   \<and> decodeAbortCode (Some ''0x2000a'') \<noteq> None
   \<and> decimal_numeral ''65''
   \<and> category_byte (numeral_value ''65'') = 0
   \<and> decodeAbortCode (Some ''65'') = None"
proof -
  have c1: "category_byte 65542 = 1" and c2: "category_byte 131082 = 2" and c3: "category_byte 65 = 0"
    by (simp_all add: category_byte_def)
  have a: "decodeAbortCode (Some ''65542'') \<noteq> None"
    using decodeAbortCode_exact_codes [of "''65542''"] small_65542 c1 by simp
  have b: "decodeAbortCode (Some ''0x2000a'') \<noteq> None"
    using decodeAbortCode_exact_codes [of "''0x2000a''"] small_hex c2 by simp
  have c: "decodeAbortCode (Some ''65'') = None"
    using decodeAbortCode_exact_codes [of "''65''"] small_65 c3 by simp
  show ?thesis using a b c small_65542 small_hex small_65 c1 c2 c3 by simp
qed

lemma bit_length_big: "bit_length 9007199255658495 = 54"
  by (simp add: bit_length.simps)

lemma to_double_big: "to_double 9007199255658495 = Finite 9007199255658496"
  by (simp add: to_double_def bit_length_big Let_def)

lemma big_numeral:
  "decimal_numeral ''9007199255658495'' \<and> numeral_value ''9007199255658495'' = 9007199255658495"
  by (simp add: decimal_numeral_def hex_numeral_def numeral_value_def startsWith_def
      digits_value_def digit_value_def isDigit_def isHexDigit_def)

lemma big_parse: "parseInt ''9007199255658495'' 10 = Finite 9007199255658496"
  using parseInt_numeral [of "''9007199255658495''"] big_numeral to_double_big
  by (simp add: startsWith_def)

lemma big_decode: "decodeAbortCode (Some ''9007199255658495'') = None"
  by (simp add: decodeAbortCode_def startsWith_def big_parse ToInt32_cat Let_def
      ERROR_CATEGORIES_def del: ToInt32.simps)

text \<open>
  Claim C9 as stated fails above \<open>2\<^sup>5\<^sup>3\<close>: the decimal numeral \<^verbatim>\<open>9007199255658495\<close> has the
  category byte \<^verbatim>\<open>0xD\<close>, an entry of the table, but \<^verbatim>\<open>parseInt\<close> gives the double
  \<^verbatim>\<open>9007199255658496\<close>, whose byte is \<^verbatim>\<open>0xE\<close>, and the decoder gives \<^verbatim>\<open>undefined\<close>.
\<close>

theorem decodeAbortCode_large_code_counterexample:
  "decimal_numeral ''9007199255658495''
   \<and> numeral_value ''9007199255658495'' = 9007199255658495
   \<and> category_byte 9007199255658495 = 13
   \<and> ERROR_CATEGORIES 13 = Some ''UNAVAILABLE''
   \<and> parseInt ''9007199255658495'' 10 = Finite 9007199255658496
   \<and> decodeAbortCode (Some ''9007199255658495'') = None"
proof -
  have "category_byte 9007199255658495 = 13" by (simp add: category_byte_def)
  moreover have "ERROR_CATEGORIES 13 = Some ''UNAVAILABLE''" by (simp add: ERROR_CATEGORIES_def)
  ultimately show ?thesis using big_numeral big_decode big_parse by simp
qed

subsection \<open>VM status\<close>

lemma keptAbort_example:
  "rx_match keptAbort_rx ''status ABORTED with code 65542 in 0x1::coin''
     = Some (0, 43, [(3, 34, 43), (1, 25, 30)])"
  by code_simp

lemma decode_65542:
  "decodeAbortCode (Some ''65542'')
     = Some \<lparr>DecodedAbort.category = ''INVALID_ARGUMENT'', reason = 6, hex = ''0x10006''\<rparr>"
proof -
  have n: "decimal_numeral ''65542'' \<or> hex_numeral ''65542''" using small_65542 by simp
  have v: "numeral_value ''65542'' = 65542" using small_65542 by simp
  have s: "numeral_value ''65542'' < 2 ^ 53" unfolding v by simp
  show ?thesis
    unfolding decodeAbortCode_exact [OF n s] v
    by (simp add: category_byte_def low16_def ERROR_CATEGORIES_def digit_char_def)
qed

lemma abort_rx_example:
  "rx_match abort_rx ''status ABORTED with code 65542 in 0x1::coin'' = None"
  by code_simp

lemma exec_rx_example:
  "rx_match exec_rx ''status ABORTED with code 65542 in 0x1::coin'' = None"
  by code_simp

text \<open>
  Claim C6, amended. \<open>parseVmStatus\<close> of \<^verbatim>\<open>dist/core/session.js\<close>, the revision that has the
  pattern of this format and the table of categories, applied to
  \<^verbatim>\<open>status ABORTED with code 65542 in 0x1::coin\<close>, yields the status \<^verbatim>\<open>ABORTED\<close>, the abort code
  \<^verbatim>\<open>65542\<close>, the category \<^verbatim>\<open>INVALID_ARGUMENT\<close> with the reason 6 (the code is \<^verbatim>\<open>(1 << 16) | 6\<close>),
  the location \<^verbatim>\<open>0x1::coin\<close> and no message.
\<close>

theorem parseVmStatus_kept_abort_example:
  "parseVmStatus (Some (JString ''status ABORTED with code 65542 in 0x1::coin''))
     = Inr \<lparr>status = ''ABORTED'', abortCode = Some ''65542'', message = None,
            location = Some ''0x1::coin'', VmStatus.category = Some ''INVALID_ARGUMENT'',
            reason = Some 6\<rparr>"
  by (simp add: parseVmStatus_def parseVmStatus_string_def keptAbort_example capture_def
      decode_65542 or_undefined_def trim_def isWhiteSpace_def Let_def)

text \<open>
  Claim C6 as stated fails on both revisions. In \<^verbatim>\<open>dist/core/session.js\<close> the category is
  \<^verbatim>\<open>INVALID_ARGUMENT\<close>, the entry of the category byte 1, and not \<^verbatim>\<open>OUT_OF_RANGE\<close>, the entry
  of 2. \<open>parseVmStatus\<close> of \<^verbatim>\<open>src/core/session.ts\<close> has neither the pattern nor the table:
  neither of its two patterns matches, and it returns the whole input as the status, with
  no abort code and no location.
\<close>

theorem parseVmStatus_category_counterexample:
  "(case parseVmStatus (Some (JString ''status ABORTED with code 65542 in 0x1::coin'')) of
      Inl e \<Rightarrow> None
    | Inr v \<Rightarrow> VmStatus.category v) = Some ''INVALID_ARGUMENT''
   \<and> Some ''INVALID_ARGUMENT'' \<noteq> Some ''OUT_OF_RANGE''
   \<and> ERROR_CATEGORIES 2 = Some ''OUT_OF_RANGE''
   \<and> category_byte 65542 = 1
   \<and> parseVmStatus_ts (Some (JString ''status ABORTED with code 65542 in 0x1::coin''))
       = Inr \<lparr>VmStatus_ts.status = ''status ABORTED with code 65542 in 0x1::coin'',
              VmStatus_ts.abortCode = None, VmStatus_ts.location = None\<rparr>
   \<and> ''status ABORTED with code 65542 in 0x1::coin'' \<noteq> ''ABORTED''"
  by (simp add: parseVmStatus_def parseVmStatus_string_def keptAbort_example capture_def
      decode_65542 or_undefined_def trim_def isWhiteSpace_def Let_def ERROR_CATEGORIES_def
      category_byte_def parseVmStatus_ts_def parseVmStatus_ts_string_def abort_rx_example
      exec_rx_example)

end
